theory Spec2Isabelle
  imports Complex_Main "HOL-Library.Multiset"
begin

section \<open>JavaScript values\<close>

text \<open>
  A JavaScript number as the handlers meet it: a finite value, negative zero, the two
  infinities and NaN. Finite values are kept exact: the model agrees with the doubles of
  the code on whole numbers below \<open>2^53\<close> and on the quotients and ceilings the handlers
  compute from them, and the theorems on numbers stay in that range.
\<close>

datatype jsnum = Finite rat | NegZero | PosInf | NegInf | NaN

text \<open>
  The value handed to \<open>res.json\<close>: an object is an association list in insertion order,
  as a JavaScript object literal keeps its properties. \<open>JUndefined\<close> is the value
  \<open>undefined\<close> of a property before serialisation.
\<close>

datatype json =
    JNull
  | JBool bool
  | JNum jsnum
  | JStr string
  | JArr "json list"
  | JObj "(string \<times> json) list"
  | JUndefined

definition JInt :: "int \<Rightarrow> json" where
  "JInt i = JNum (Finite (of_int i))"

text \<open>
  \<open>{...base, k: v}\<close>: an existing property keeps its place and takes the new value, a
  new property is appended.
\<close>

fun set_prop :: "(string \<times> json) list \<Rightarrow> string \<times> json \<Rightarrow> (string \<times> json) list" where
  "set_prop [] (k, v) = [(k, v)]"
| "set_prop ((k', v') # ps) (k, v) =
     (if k' = k then (k, v) # ps else (k', v') # set_prop ps (k, v))"

fun get_prop :: "(string \<times> json) list \<Rightarrow> string \<Rightarrow> json option" where
  "get_prop [] k = None"
| "get_prop ((k', v) # ps) k = (if k' = k then Some v else get_prop ps k)"

text \<open>\<open>v.k\<close> on a value that may not be an object.\<close>

definition json_get :: "json \<Rightarrow> string \<Rightarrow> json option" where
  "json_get v k = (case v of JObj ps \<Rightarrow> get_prop ps k | _ \<Rightarrow> None)"

definition json_path :: "json \<Rightarrow> string \<Rightarrow> string \<Rightarrow> json option" where
  "json_path v k1 k2 = (case json_get v k1 of None \<Rightarrow> None | Some w \<Rightarrow> json_get w k2)"

section \<open>Responses and the envelope\<close>

record response =
  status :: nat
  body :: json

text \<open>What a middleware does: answer the request itself, or call \<open>next()\<close>.\<close>

datatype 'a gate = Respond response | Next 'a

definition is_whole :: "json \<Rightarrow> bool" where
  "is_whole v = (case v of JNum (Finite q) \<Rightarrow> q = of_int \<lfloor>q\<rfloor> | _ \<Rightarrow> False)"

definition is_number :: "json \<Rightarrow> bool" where
  "is_number v = (case v of JNum _ \<Rightarrow> True | _ \<Rightarrow> False)"

definition is_pagination :: "json \<Rightarrow> bool" where
  "is_pagination v =
     (case v of
        JObj ps \<Rightarrow>
          map fst ps = [''total'', ''page'', ''limit'', ''pages''] \<and> list_all is_number (map snd ps)
      | _ \<Rightarrow> False)"

text \<open>
  The envelope of section 4.3 of the specification:
  \<open>{ success: bool, message: string, data: T|null, errors: string|array|null,
  statusCode: int, pagination?: {...} }\<close>, and no other property.
\<close>

definition is_envelope :: "json \<Rightarrow> bool" where
  "is_envelope v =
     (case v of
        JObj ps \<Rightarrow>
          distinct (map fst ps) \<and>
          set (map fst ps) \<subseteq>
            {''success'', ''message'', ''data'', ''errors'', ''statusCode'', ''pagination''} \<and>
          (case get_prop ps ''success'' of Some (JBool _) \<Rightarrow> True | _ \<Rightarrow> False) \<and>
          (case get_prop ps ''message'' of Some (JStr _) \<Rightarrow> True | _ \<Rightarrow> False) \<and>
          (case get_prop ps ''data'' of Some _ \<Rightarrow> True | None \<Rightarrow> False) \<and>
          (case get_prop ps ''errors'' of
             Some (JStr _) \<Rightarrow> True | Some (JArr _) \<Rightarrow> True | Some JNull \<Rightarrow> True | _ \<Rightarrow> False) \<and>
          (case get_prop ps ''statusCode'' of Some n \<Rightarrow> is_whole n | None \<Rightarrow> False) \<and>
          (case get_prop ps ''pagination'' of Some p \<Rightarrow> is_pagination p | None \<Rightarrow> True)
      | _ \<Rightarrow> False)"

text \<open>
  Modelled from the spec: \<open>types/response.js\<close> (the constant \<open>responseFormat\<close> that
  every handler spreads into its answer) is not among the sources. Section 4.3 fixes its
  properties; the defaults are those of a successful answer without payload, since the
  registration and login handlers rely on the default of \<open>success\<close> for their
  successful answers.
\<close>

definition responseFormat :: "(string \<times> json) list" where
  "responseFormat =
     [(''success'', JBool True), (''message'', JStr ''''), (''data'', JNull),
      (''errors'', JNull), (''statusCode'', JInt 200)]"

section \<open>Strings\<close>

definition startsWith :: "string \<Rightarrow> string \<Rightarrow> bool" where
  "startsWith s p = (take (length p) s = p)"

text \<open>\<open>s.split(c)\<close> for a one-character separator: never empty, \<open>''''\<close> gives \<open>['''']\<close>.\<close>

fun split_on :: "char \<Rightarrow> string \<Rightarrow> string list" where
  "split_on c [] = [[]]"
| "split_on c (x # xs) =
     (if x = c then [] # split_on c xs
      else (case split_on c xs of
              w # ws \<Rightarrow> (x # w) # ws
            | [] \<Rightarrow> [[x]]))"

text \<open>\<open>xs[i]\<close>: \<open>undefined\<close> (here \<open>None\<close>) out of range.\<close>

definition at_index :: "'a list \<Rightarrow> nat \<Rightarrow> 'a option" where
  "at_index xs i = (if i < length xs then Some (xs ! i) else None)"

section \<open>Process environment, libraries and clock\<close>

text \<open>\<open>process.env\<close>: a variable is a string or is not set.\<close>

record env =
  ACCESS_TOKEN_SECRET :: "string option"
  REFRESH_TOKEN_SECRET :: "string option"
  ACCESS_TOKEN_EXPIRY :: "string option"
  REFRESH_TOKEN_EXPIRY :: "string option"
  PER_PAGE :: "string option"

text \<open>
  A signed token, symbolically: its payload and the secret its signature was made with.
  A token string stands for at most one such token (\<open>jwt_decode\<close>), so a signature made
  under one secret never verifies under another: the usual idealisation of the HMAC of
  the \<open>jsonwebtoken\<close> package.
\<close>

record jwt =
  payload :: "(string \<times> json) list"
  signed_with :: string

text \<open>
  The third-party packages, as parameters of the model: the compact serialisation of
  \<open>jsonwebtoken\<close> and its reading of a time span (seconds), \<open>bcrypt\<close> on strings, and
  the two e-mail functions of \<open>validator.js\<close> that \<open>express-validator\<close> calls. The text
  of a number (\<open>String(n)\<close>) is left open in the same way.
\<close>

record libs =
  jwt_encode :: "jwt \<Rightarrow> string"
  jwt_decode :: "string \<Rightarrow> jwt option"
  timespan :: "string \<Rightarrow> int option"
  bcrypt_hash :: "string \<Rightarrow> string"
  bcrypt_compare :: "string \<Rightarrow> string \<Rightarrow> bool"
  isEmail :: "string \<Rightarrow> bool"
  normalizeEmail :: "string \<Rightarrow> string"
  number_text :: "jsnum \<Rightarrow> string"

text \<open>What a request runs in: the environment, the packages and the clock (milliseconds).\<close>

record runtime =
  envr :: env
  lib :: libs
  now_ms :: nat

text \<open>\<open>x || d\<close> on an environment variable: unset and the empty string are both falsy.\<close>

definition or_default :: "string option \<Rightarrow> string \<Rightarrow> string" where
  "or_default x d = (case x of None \<Rightarrow> d | Some s \<Rightarrow> if s = [] then d else s)"

section \<open>jsonwebtoken\<close>

definition clockTimestamp :: "runtime \<Rightarrow> int" where
  "clockTimestamp rt = int (now_ms rt div 1000)"

text \<open>The token that \<open>jwt.sign\<close> makes: \<open>iat\<close> and \<open>exp\<close> join the payload.\<close>

definition mint :: "runtime \<Rightarrow> (string \<times> json) list \<Rightarrow> string \<Rightarrow> int \<Rightarrow> jwt" where
  "mint rt pl k d =
     \<lparr>payload =
        foldl set_prop pl
          [(''iat'', JInt (clockTimestamp rt)), (''exp'', JInt (clockTimestamp rt + d))],
      signed_with = k\<rparr>"

text \<open>
  \<open>jwt.sign(payload, secret, { expiresIn })\<close>: fails without a secret and on a time span
  it cannot read; otherwise the result is the serialised token.
\<close>

definition jwt_sign ::
  "runtime \<Rightarrow> (string \<times> json) list \<Rightarrow> string option \<Rightarrow> string \<Rightarrow> string + string" where
  "jwt_sign rt pl secret expiresIn =
     (case secret of
        None \<Rightarrow> Inl ''secretOrPrivateKey must have a value''
      | Some k \<Rightarrow>
          if k = [] then Inl ''secretOrPrivateKey must have a value''
          else (case timespan (lib rt) expiresIn of
                  None \<Rightarrow> Inl ''\"expiresIn\" should be a number of seconds or string representing a timespan''
                | Some d \<Rightarrow> Inr (jwt_encode (lib rt) (mint rt pl k d))))"

text \<open>
  \<open>jwt.verify(token, secret)\<close>: the token must decode, the secret must be present, the
  signature must have been made with it, and \<open>nbf\<close> and \<open>exp\<close>, when present, must be
  numbers with \<open>nbf \<le> now < exp\<close>. The result is the error message or the payload.
\<close>

definition jwt_verify ::
  "runtime \<Rightarrow> string \<Rightarrow> string option \<Rightarrow> string + (string \<times> json) list" where
  "jwt_verify rt token secret =
     (case jwt_decode (lib rt) token of
        None \<Rightarrow> Inl ''jwt malformed''
      | Some t \<Rightarrow>
          (case secret of
             None \<Rightarrow> Inl ''secret or public key must be provided''
           | Some k \<Rightarrow>
               if k = [] then Inl ''secret or public key must be provided''
               else if signed_with t \<noteq> k then Inl ''invalid signature''
               else (case get_prop (payload t) ''nbf'' of
                       Some (JNum (Finite n)) \<Rightarrow>
                         if of_int (clockTimestamp rt) < n then Inl ''jwt not active''
                         else (case get_prop (payload t) ''exp'' of
                                 None \<Rightarrow> Inr (payload t)
                               | Some (JNum (Finite e)) \<Rightarrow>
                                   if e \<le> of_int (clockTimestamp rt) then Inl ''jwt expired''
                                   else Inr (payload t)
                               | Some _ \<Rightarrow> Inl ''invalid exp value'')
                     | Some _ \<Rightarrow> Inl ''invalid nbf value''
                     | None \<Rightarrow>
                         (case get_prop (payload t) ''exp'' of
                            None \<Rightarrow> Inr (payload t)
                          | Some (JNum (Finite e)) \<Rightarrow>
                              if e \<le> of_int (clockTimestamp rt) then Inl ''jwt expired''
                              else Inr (payload t)
                          | Some _ \<Rightarrow> Inl ''invalid exp value''))))"

section \<open>Numbers read from strings\<close>

text \<open>
  Strings are byte strings here; the white space of the model is the ASCII white space.
\<close>

definition is_ws :: "char \<Rightarrow> bool" where
  "is_ws c = (c \<in> set [CHR '' '', CHR 0x09, CHR 0x0A, CHR 0x0B, CHR 0x0C, CHR 0x0D])"

definition trim_ws :: "string \<Rightarrow> string" where
  "trim_ws s = rev (dropWhile is_ws (rev (dropWhile is_ws s)))"

definition digit_of :: "nat \<Rightarrow> char \<Rightarrow> nat option" where
  "digit_of radix c =
     (let n = (of_char c :: nat);
          v = (if 48 \<le> n \<and> n \<le> 57 then n - 48
               else if 97 \<le> n \<and> n \<le> 122 then n - 87
               else if 65 \<le> n \<and> n \<le> 90 then n - 55
               else 36)
      in if v < radix then Some v else None)"

fun digits_prefix :: "nat \<Rightarrow> string \<Rightarrow> nat list" where
  "digits_prefix radix [] = []"
| "digits_prefix radix (c # cs) =
     (case digit_of radix c of None \<Rightarrow> [] | Some v \<Rightarrow> v # digits_prefix radix cs)"

definition from_digits :: "nat \<Rightarrow> nat list \<Rightarrow> nat" where
  "from_digits radix ds = foldl (\<lambda>a d. a * radix + d) 0 ds"

definition all_digits :: "nat \<Rightarrow> string \<Rightarrow> bool" where
  "all_digits radix s = (s \<noteq> [] \<and> list_all (\<lambda>c. digit_of radix c \<noteq> None) s)"

text \<open>An optional sign in front of a string: whether it is \<open>-\<close>, and the rest.\<close>

definition take_sign :: "string \<Rightarrow> bool \<times> string" where
  "take_sign s =
     (case s of
        [] \<Rightarrow> (False, [])
      | c # r \<Rightarrow>
          if c = CHR ''-'' then (True, r) else if c = CHR ''+'' then (False, r) else (False, s))"

text \<open>
  \<open>parseInt(s)\<close> without a radix: leading white space, a sign, \<open>0x\<close> for radix 16, then the
  longest prefix of digits; NaN when that prefix is empty.
\<close>

definition parseInt_js :: "string \<Rightarrow> jsnum" where
  "parseInt_js s =
     (let (neg, s2) = take_sign (dropWhile is_ws s);
          (radix, s3) = (if startsWith s2 ''0x'' \<or> startsWith s2 ''0X'' then (16, drop 2 s2)
                         else (10, s2));
          ds = digits_prefix radix s3
      in if ds = [] then NaN
         else let v = from_digits radix ds
              in if neg then (if v = 0 then NegZero else Finite (- of_nat v))
                 else Finite (of_nat v))"

definition radix_literal :: "nat \<Rightarrow> string \<Rightarrow> jsnum" where
  "radix_literal radix s =
     (if all_digits radix s then Finite (of_nat (from_digits radix (digits_prefix radix s)))
      else NaN)"

definition scale10 :: "nat \<Rightarrow> int \<Rightarrow> rat" where
  "scale10 m k = (if 0 \<le> k then of_nat m * 10 ^ nat k else of_nat m / 10 ^ nat (- k))"

definition exponent_part :: "string \<Rightarrow> int option" where
  "exponent_part s =
     (case s of
        [] \<Rightarrow> Some 0
      | c # r \<Rightarrow>
          if c = CHR ''e'' \<or> c = CHR ''E'' then
            (let (neg, ds) = take_sign r
             in if all_digits 10 ds then
                  Some (if neg then - int (from_digits 10 (digits_prefix 10 ds))
                        else int (from_digits 10 (digits_prefix 10 ds)))
                else None)
          else None)"

definition decimal_literal :: "string \<Rightarrow> rat option" where
  "decimal_literal s =
     (let ip = digits_prefix 10 s;
          r1 = drop (length ip) s;
          fp = (case r1 of [] \<Rightarrow> [] | c # r \<Rightarrow> if c = CHR ''.'' then digits_prefix 10 r else []);
          r2 = (case r1 of [] \<Rightarrow> [] | c # r \<Rightarrow> if c = CHR ''.'' then drop (length fp) r else r1)
      in if ip = [] \<and> fp = [] then None
         else (case exponent_part r2 of
                 None \<Rightarrow> None
               | Some e \<Rightarrow> Some (scale10 (from_digits 10 (ip @ fp)) (e - int (length fp)))))"

text \<open>
  \<open>Number(s)\<close> of a string: the whole trimmed string must be a numeric literal; the empty
  string is \<open>0\<close>.
\<close>

definition Number_js :: "string \<Rightarrow> jsnum" where
  "Number_js s =
     (let t = trim_ws s
      in if t = [] then Finite 0
         else if startsWith t ''0x'' \<or> startsWith t ''0X'' then radix_literal 16 (drop 2 t)
         else if startsWith t ''0o'' \<or> startsWith t ''0O'' then radix_literal 8 (drop 2 t)
         else if startsWith t ''0b'' \<or> startsWith t ''0B'' then radix_literal 2 (drop 2 t)
         else (let (neg, u) = take_sign t
               in if u = ''Infinity'' then (if neg then NegInf else PosInf)
                  else (case decimal_literal u of
                          None \<Rightarrow> NaN
                        | Some q \<Rightarrow>
                            if neg then (if q = 0 then NegZero else Finite (- q))
                            else Finite q)))"

subsection \<open>Arithmetic\<close>

definition is_nan :: "jsnum \<Rightarrow> bool" where
  "is_nan x = (case x of NaN \<Rightarrow> True | _ \<Rightarrow> False)"

definition is_inf :: "jsnum \<Rightarrow> bool" where
  "is_inf x = (case x of PosInf \<Rightarrow> True | NegInf \<Rightarrow> True | _ \<Rightarrow> False)"

definition is_neg :: "jsnum \<Rightarrow> bool" where
  "is_neg x = (case x of Finite q \<Rightarrow> q < 0 | NegZero \<Rightarrow> True | NegInf \<Rightarrow> True | _ \<Rightarrow> False)"

definition mag :: "jsnum \<Rightarrow> rat" where
  "mag x = (case x of Finite q \<Rightarrow> q | _ \<Rightarrow> 0)"

definition is_zero :: "jsnum \<Rightarrow> bool" where
  "is_zero x = (case x of Finite q \<Rightarrow> q = 0 | NegZero \<Rightarrow> True | _ \<Rightarrow> False)"


definition signed_zero :: "bool \<Rightarrow> jsnum" where
  "signed_zero neg = (if neg then NegZero else Finite 0)"

definition signed_inf :: "bool \<Rightarrow> jsnum" where
  "signed_inf neg = (if neg then NegInf else PosInf)"

text \<open>\<open>x - 1\<close>.\<close>

definition js_pred :: "jsnum \<Rightarrow> jsnum" where
  "js_pred x = (case x of Finite q \<Rightarrow> Finite (q - 1) | NegZero \<Rightarrow> Finite (- 1) | y \<Rightarrow> y)"

text \<open>\<open>x * y\<close>.\<close>

definition js_mul :: "jsnum \<Rightarrow> jsnum \<Rightarrow> jsnum" where
  "js_mul x y =
     (if is_nan x \<or> is_nan y then NaN
      else if (is_inf x \<and> is_zero y) \<or> (is_zero x \<and> is_inf y) then NaN
      else if is_inf x \<or> is_inf y then signed_inf (is_neg x \<noteq> is_neg y)
      else if mag x * mag y = 0 then signed_zero (is_neg x \<noteq> is_neg y)
      else Finite (mag x * mag y))"

text \<open>\<open>x / y\<close>.\<close>

definition js_div :: "jsnum \<Rightarrow> jsnum \<Rightarrow> jsnum" where
  "js_div x y =
     (if is_nan x \<or> is_nan y then NaN
      else if (is_zero x \<and> is_zero y) \<or> (is_inf x \<and> is_inf y) then NaN
      else if is_zero y \<or> is_inf x then signed_inf (is_neg x \<noteq> is_neg y)
      else if is_zero x \<or> is_inf y then signed_zero (is_neg x \<noteq> is_neg y)
      else Finite (mag x / mag y))"

text \<open>\<open>Math.ceil(x)\<close>.\<close>

definition js_ceil :: "jsnum \<Rightarrow> jsnum" where
  "js_ceil x =
     (case x of
        Finite q \<Rightarrow> if \<lceil>q\<rceil> = 0 \<and> q < 0 then NegZero else Finite (of_int \<lceil>q\<rceil>)
      | y \<Rightarrow> y)"

text \<open>
  \<open>parseInt\<close> of a number, through its decimal rendering (for magnitudes rendered without
  an exponent): the integer part, NaN for what is not finite.
\<close>

definition int_part :: "jsnum \<Rightarrow> jsnum" where
  "int_part x =
     (case x of
        Finite q \<Rightarrow>
          if 0 \<le> q then Finite (of_int \<lfloor>q\<rfloor>)
          else if \<lceil>q\<rceil> = 0 then NegZero
          else Finite (of_int \<lceil>q\<rceil>)
      | NegZero \<Rightarrow> Finite 0
      | _ \<Rightarrow> NaN)"

text \<open>
  A query parameter after destructuring with a default: the string of the query, or the
  default, which may be a number.
\<close>

datatype jsval = VNum jsnum | VStr string

definition parseInt_v :: "jsval \<Rightarrow> jsnum" where
  "parseInt_v v = (case v of VNum n \<Rightarrow> int_part n | VStr s \<Rightarrow> parseInt_js s)"

definition Number_v :: "jsval \<Rightarrow> jsnum" where
  "Number_v v = (case v of VNum n \<Rightarrow> n | VStr s \<Rightarrow> Number_js s)"

section \<open>The relational store\<close>

text \<open>
  Rows of the two tables the routes use. A timestamp is an instant in milliseconds.
  The \<open>books\<close> table has no route and is left out.
\<close>

record user =
  u_id :: int
  u_username :: string
  u_email :: string
  u_password :: string
  u_created_at :: nat
  u_updated_at :: nat

record author =
  a_id :: int
  a_name :: string
  a_email :: string
  a_bio :: "string option"
  a_created_at :: nat
  a_updated_at :: nat

text \<open>
  The tables in storage order, and the last value of each \<open>id\<close> sequence. Queries are
  modelled on a reachable database: the only failures are those the statement itself
  provokes (a violated constraint, an ill-typed binding).
\<close>

record store =
  users :: "user list"
  authors :: "author list"
  users_seq :: int
  authors_seq :: int

text \<open>PostgreSQL reads an \<open>integer\<close> from text: white space, a sign, digits, in range.\<close>

definition in_int4 :: "int \<Rightarrow> bool" where
  "in_int4 i = (- 2147483648 \<le> i \<and> i \<le> 2147483647)"

definition pg_int :: "string \<Rightarrow> string + int" where
  "pg_int s =
     (let (neg, u) = take_sign (trim_ws s)
      in if all_digits 10 u then
           (let v = int (from_digits 10 (digits_prefix 10 u));
                i = (if neg then - v else v)
            in if in_int4 i then Inr i
               else Inl (''value \"'' @ s @ ''\" is out of range for type integer''))
         else Inl (''invalid input syntax for type integer: \"'' @ s @ ''\"''))"

text \<open>
  A value other than \<open>null\<close> and \<open>undefined\<close> bound to the \<open>id\<close> column: a number or a
  string must denote an \<open>integer\<close>, anything else is refused by the database.
\<close>

definition bind_int :: "json \<Rightarrow> string + int" where
  "bind_int v =
     (case v of
        JNum (Finite q) \<Rightarrow>
          if q = of_int \<lfloor>q\<rfloor> \<and> in_int4 \<lfloor>q\<rfloor> then Inr \<lfloor>q\<rfloor>
          else Inl ''invalid input syntax for type integer''
      | JStr s \<Rightarrow> pg_int s
      | _ \<Rightarrow> Inl ''invalid input syntax for type integer'')"

text \<open>
  \<open>where({ id })\<close>: \<open>undefined\<close> is refused by the query builder; \<open>null\<close> becomes
  \<open>id IS NULL\<close> (here \<open>Inr None\<close>), which no row of a table with a primary key satisfies;
  any other value is bound as above.
\<close>

definition bind_id :: "json option \<Rightarrow> string + int option" where
  "bind_id v =
     (case v of
        None \<Rightarrow> Inl ''Undefined binding(s) detected when compiling query''
      | Some JUndefined \<Rightarrow> Inl ''Undefined binding(s) detected when compiling query''
      | Some JNull \<Rightarrow> Inr None
      | Some w \<Rightarrow> (case bind_int w of Inl err \<Rightarrow> Inl err | Inr i \<Rightarrow> Inr (Some i)))"

definition user_by_email :: "store \<Rightarrow> string \<Rightarrow> user option" where
  "user_by_email st e = find (\<lambda>u. u_email u = e) (users st)"

definition user_by_id :: "store \<Rightarrow> int \<Rightarrow> user option" where
  "user_by_id st i = find (\<lambda>u. u_id u = i) (users st)"

definition author_by_id :: "store \<Rightarrow> int \<Rightarrow> author option" where
  "author_by_id st i = find (\<lambda>a. a_id a = i) (authors st)"

text \<open>
  Modelled from the spec: the migration of the \<open>users\<close> table is not among the sources.
  Section 3 of the specification makes the e-mail unique at the store level; the columns
  are those the routes read and write. The sequence advances even when the row is refused.
\<close>

definition insert_user ::
  "store \<Rightarrow> string \<Rightarrow> string \<Rightarrow> string \<Rightarrow> nat \<Rightarrow> (string + user) \<times> store" where
  "insert_user st username email password now =
     (let i = users_seq st + 1;
          st1 = st\<lparr>users_seq := i\<rparr>;
          row = \<lparr>u_id = i, u_username = username, u_email = email, u_password = password,
                 u_created_at = now, u_updated_at = now\<rparr>
      in if email \<in> set (map u_email (users st)) then
           (Inl ''duplicate key value violates unique constraint \"users_email_unique\"'', st1)
         else (Inr row, st1\<lparr>users := users st @ [row]\<rparr>))"

definition update_user ::
  "store \<Rightarrow> int \<Rightarrow> string \<Rightarrow> string \<Rightarrow> nat \<Rightarrow> (string + user list) \<times> store" where
  "update_user st i username email now =
     (let upd = (\<lambda>u. if u_id u = i
                      then u\<lparr>u_username := username, u_email := email, u_updated_at := now\<rparr>
                      else u);
          rows = map upd (users st)
      in if i \<in> set (map u_id (users st)) \<and>
            email \<in> set (map u_email (filter (\<lambda>u. u_id u \<noteq> i) (users st))) then
           (Inl ''duplicate key value violates unique constraint \"users_email_unique\"'', st)
         else (Inr (filter (\<lambda>u. u_id u = i) rows), st\<lparr>users := rows\<rparr>))"

definition delete_user :: "store \<Rightarrow> int \<Rightarrow> nat \<times> store" where
  "delete_user st i =
     (length (filter (\<lambda>u. u_id u = i) (users st)),
      st\<lparr>users := filter (\<lambda>u. u_id u \<noteq> i) (users st)\<rparr>)"

text \<open>
  The \<open>authors\<close> table of the migration: \<open>name\<close> and \<open>email\<close> are \<open>varchar(255)\<close>,
  \<open>email\<close> is unique, \<open>bio\<close> is a nullable \<open>varchar(500)\<close>.
\<close>

definition author_fits :: "string \<Rightarrow> string \<Rightarrow> string option \<Rightarrow> string option" where
  "author_fits name email bio =
     (if 255 < length name \<or> 255 < length email then
        Some ''value too long for type character varying(255)''
      else if (case bio of None \<Rightarrow> False | Some b \<Rightarrow> 500 < length b) then
        Some ''value too long for type character varying(500)''
      else None)"

definition insert_author ::
  "store \<Rightarrow> string \<Rightarrow> string \<Rightarrow> string option \<Rightarrow> nat \<Rightarrow> (string + author) \<times> store" where
  "insert_author st name email bio now =
     (let i = authors_seq st + 1;
          st1 = st\<lparr>authors_seq := i\<rparr>;
          row = \<lparr>a_id = i, a_name = name, a_email = email, a_bio = bio,
                 a_created_at = now, a_updated_at = now\<rparr>
      in case author_fits name email bio of
           Some msg \<Rightarrow> (Inl msg, st1)
         | None \<Rightarrow>
             if email \<in> set (map a_email (authors st)) then
               (Inl ''duplicate key value violates unique constraint \"authors_email_unique\"'', st1)
             else (Inr row, st1\<lparr>authors := authors st @ [row]\<rparr>))"

text \<open>
  \<open>update({name, email, bio, updated_at})\<close>: an \<open>undefined\<close> \<open>bio\<close> is left out of the
  statement, so the column keeps its value.
\<close>

definition update_author ::
  "store \<Rightarrow> int \<Rightarrow> string \<Rightarrow> string \<Rightarrow> string option \<Rightarrow> nat \<Rightarrow> (string + author list) \<times> store" where
  "update_author st i name email bio now =
     (let upd = (\<lambda>a. if a_id a = i
                      then a\<lparr>a_name := name, a_email := email,
                             a_bio := (case bio of None \<Rightarrow> a_bio a | Some b \<Rightarrow> Some b),
                             a_updated_at := now\<rparr>
                      else a);
          rows = map upd (authors st)
      in case author_fits name email bio of
           Some msg \<Rightarrow> (Inl msg, st)
         | None \<Rightarrow>
             if i \<in> set (map a_id (authors st)) \<and>
                email \<in> set (map a_email (filter (\<lambda>a. a_id a \<noteq> i) (authors st))) then
               (Inl ''duplicate key value violates unique constraint \"authors_email_unique\"'', st)
             else (Inr (filter (\<lambda>a. a_id a = i) rows), st\<lparr>authors := rows\<rparr>))"

definition delete_authors :: "store \<Rightarrow> int list \<Rightarrow> nat \<times> store" where
  "delete_authors st ids =
     (length (filter (\<lambda>a. a_id a \<in> set ids) (authors st)),
      st\<lparr>authors := filter (\<lambda>a. a_id a \<notin> set ids) (authors st)\<rparr>)"

subsection \<open>Searching and paging\<close>

definition to_lower :: "char \<Rightarrow> char" where
  "to_lower c =
     (if 65 \<le> (of_char c :: nat) \<and> (of_char c :: nat) \<le> 90 then char_of ((of_char c :: nat) + 32)
      else c)"

text \<open>
  \<open>LIKE\<close>: \<open>%\<close> matches any run of characters, \<open>_\<close> any one character, a backslash
  takes the next character of the pattern literally.
\<close>

fun like_match :: "string \<Rightarrow> string \<Rightarrow> bool" where
  "like_match [] s = (s = [])"
| "like_match (p # ps) [] = (p = CHR ''%'' \<and> like_match ps [])"
| "like_match (p # ps) (c # t) =
     (if p = CHR ''%'' then like_match ps (c # t) \<or> like_match (p # ps) t
      else if p = CHR ''_'' then like_match ps t
      else if p = CHR 0x5C then
        (case ps of [] \<Rightarrow> False | q # qs \<Rightarrow> c = q \<and> like_match qs t)
      else c = p \<and> like_match ps t)"

definition ilike :: "string \<Rightarrow> string \<Rightarrow> bool" where
  "ilike s pattern = like_match (map to_lower pattern) (map to_lower s)"

text \<open>
  \<open>orderBy('created_at', 'desc')\<close>. The database leaves the order of rows with equal
  timestamps open; the model keeps them in storage order.
\<close>

definition order_desc :: "author list \<Rightarrow> author list" where
  "order_desc rows = sort_key (\<lambda>a. - int (a_created_at a)) rows"

text \<open>
  \<open>.limit(v)\<close> and \<open>.offset(v)\<close> of the query builder: a value that is not a number is
  ignored with a warning, a negative one makes the query fail.
\<close>

definition sql_limit :: "jsnum \<Rightarrow> 'a list \<Rightarrow> string + 'a list" where
  "sql_limit v rows =
     (case int_part v of
        Finite q \<Rightarrow> if q < 0 then Inl ''LIMIT must not be negative'' else Inr (take (nat \<lfloor>q\<rfloor>) rows)
      | NegZero \<Rightarrow> Inr (take 0 rows)
      | _ \<Rightarrow> Inr rows)"

definition sql_offset :: "jsnum \<Rightarrow> 'a list \<Rightarrow> string + 'a list" where
  "sql_offset v rows =
     (case int_part v of
        Finite q \<Rightarrow>
          if q < 0 then Inl ''A non-negative integer must be provided to offset.''
          else Inr (drop (nat \<lfloor>q\<rfloor>) rows)
      | NegZero \<Rightarrow> Inr rows
      | _ \<Rightarrow> Inr rows)"

section \<open>Middleware\<close>

text \<open>
  One entry of \<open>validationResult(req).array()\<close>: the value that failed (absent when it
  was \<open>undefined\<close>), the message and the field.
\<close>

record verror =
  ve_value :: "json option"
  ve_msg :: string
  ve_path :: string

definition verror_json :: "verror \<Rightarrow> json" where
  "verror_json e =
     JObj ([(''type'', JStr ''field'')] @
           (case ve_value e of None \<Rightarrow> [] | Some v \<Rightarrow> [(''value'', v)]) @
           [(''msg'', JStr (ve_msg e)), (''path'', JStr (ve_path e)),
            (''location'', JStr ''body'')])"

text \<open>\<open>middleware/validate.js\<close>, \<open>validate\<close>.\<close>

definition validate :: "verror list \<Rightarrow> 'a \<Rightarrow> 'a gate" where
  "validate errors nxt =
     (if errors \<noteq> [] then
        Respond \<lparr>status = 400,
                 body = JObj [(''status'', JStr ''error''),
                              (''message'', JStr ''Validation failed''),
                              (''errors'', JArr (map verror_json errors))]\<rparr>
      else Next nxt)"

text \<open>\<open>middleware/auth.js\<close>, \<open>authenticate\<close>: on success the payload becomes \<open>req.user\<close>.\<close>

definition authenticate :: "runtime \<Rightarrow> string option \<Rightarrow> (string \<times> json) list gate" where
  "authenticate rt authHeader =
     (case authHeader of
        None \<Rightarrow>
          Respond \<lparr>status = 401,
                   body = JObj [(''error'', JStr ''Authorization header missing or malformed'')]\<rparr>
      | Some h \<Rightarrow>
          if h = [] \<or> \<not> startsWith h ''Bearer '' then
            Respond \<lparr>status = 401,
                     body = JObj [(''error'', JStr ''Authorization header missing or malformed'')]\<rparr>
          else
            (case at_index (split_on CHR '' '' h) 1 of
               None \<Rightarrow>
                 Respond \<lparr>status = 401, body = JObj [(''error'', JStr ''Access token not provided'')]\<rparr>
             | Some token \<Rightarrow>
                 if token = [] then
                   Respond \<lparr>status = 401, body = JObj [(''error'', JStr ''Access token not provided'')]\<rparr>
                 else
                   (case jwt_verify rt token (ACCESS_TOKEN_SECRET (envr rt)) of
                      Inl err \<Rightarrow>
                        Respond \<lparr>status = 403, body = JObj [(''error'', JStr ''Invalid or expired token'')]\<rparr>
                    | Inr user \<Rightarrow> Next user)))"

section \<open>Requests and answers\<close>

text \<open>
  The parts of a request the routes read: the \<open>Authorization\<close> header, the \<open>:id\<close> of the
  path, the query and the JSON body. The fields \<open>password\<close> and \<open>ids\<close> are any JSON value
  or absent; the other body fields are strings or absent.
\<close>

record request =
  authorization :: "string option"
  param_id :: string
  q_page :: "string option"
  q_limit :: "string option"
  q_search :: "string option"
  b_username :: "string option"
  b_email :: "string option"
  b_password :: "json option"
  b_refreshToken :: "string option"
  b_name :: "string option"
  b_bio :: "string option"
  b_ids :: "json option"

text \<open>
  \<open>res.status(code).json({...responseFormat, ...})\<close>; serialisation drops a property
  whose value is \<open>undefined\<close>.
\<close>

definition reply :: "nat \<Rightarrow> (string \<times> json) list \<Rightarrow> response" where
  "reply code props =
     \<lparr>status = code,
      body = JObj (filter (\<lambda>kv. snd kv \<noteq> JUndefined) (foldl set_prop responseFormat props))\<rparr>"

definition failure :: "nat \<Rightarrow> string \<Rightarrow> response" where
  "failure code msg =
     reply code [(''success'', JBool False), (''message'', JStr msg), (''statusCode'', JInt (int code))]"

definition failure_with :: "nat \<Rightarrow> string \<Rightarrow> string \<Rightarrow> response" where
  "failure_with code msg err =
     reply code [(''success'', JBool False), (''message'', JStr msg), (''errors'', JStr err),
                 (''statusCode'', JInt (int code))]"

text \<open>A timestamp is sent as its instant; the code sends the ISO string of that instant.\<close>

definition user_json :: "user \<Rightarrow> json" where
  "user_json u =
     JObj [(''id'', JInt (u_id u)), (''username'', JStr (u_username u)), (''email'', JStr (u_email u)),
           (''created_at'', JInt (int (u_created_at u))), (''updated_at'', JInt (int (u_updated_at u)))]"

definition author_json :: "author \<Rightarrow> json" where
  "author_json a =
     JObj [(''id'', JInt (a_id a)), (''name'', JStr (a_name a)), (''email'', JStr (a_email a)),
           (''bio'', (case a_bio a of None \<Rightarrow> JNull | Some b \<Rightarrow> JStr b)),
           (''created_at'', JInt (int (a_created_at a))), (''updated_at'', JInt (int (a_updated_at a)))]"

text \<open>\<open>const [row] = rows\<close>, \<open>rows[0]\<close>: \<open>undefined\<close> on an empty result.\<close>

definition first_row :: "json list \<Rightarrow> json" where
  "first_row rows = (case rows of [] \<Rightarrow> JUndefined | r # _ \<Rightarrow> r)"

section \<open>Validation chains\<close>

text \<open>
  The chains of \<open>express-validator\<close> in front of a handler. A validator or sanitizer reads
  the field as a string (\<open>undefined\<close> as the empty string); a sanitizer writes its result
  back into the body; every failing validator adds one entry.
\<close>

definition to_string :: "string option \<Rightarrow> string" where
  "to_string v = (case v of None \<Rightarrow> [] | Some s \<Rightarrow> s)"

definition check :: "bool \<Rightarrow> json option \<Rightarrow> string \<Rightarrow> string \<Rightarrow> verror list" where
  "check ok v msg path = (if ok then [] else [\<lparr>ve_value = v, ve_msg = msg, ve_path = path\<rparr>])"

text \<open>
  A field without a sanitizer, such as \<open>password\<close>, reaches its validators as the JSON
  value of the body. \<open>String(v)\<close>: the elements of an array are joined by commas, \<open>null\<close>
  and \<open>undefined\<close> among them as the empty string.
\<close>

fun join_comma :: "string list \<Rightarrow> string" where
  "join_comma [] = []"
| "join_comma [x] = x"
| "join_comma (x # y # ys) = x @ '','' @ join_comma (y # ys)"

fun js_String :: "(jsnum \<Rightarrow> string) \<Rightarrow> json \<Rightarrow> string" where
  "js_String num JNull = ''null''"
| "js_String num JUndefined = ''undefined''"
| "js_String num (JBool b) = (if b then ''true'' else ''false'')"
| "js_String num (JNum n) = num n"
| "js_String num (JStr s) = s"
| "js_String num (JObj ps) = ''[object Object]''"
| "js_String num (JArr xs) =
     join_comma (map (\<lambda>x. if x = JNull \<or> x = JUndefined then [] else js_String num x) xs)"

text \<open>
  The string a validator of \<open>express-validator\<close> sees for one value (its \<open>toString\<close>):
  \<open>undefined\<close>, \<open>null\<close> and \<open>NaN\<close> are the empty string, a non-empty array stands for its
  first element, everything else for its \<open>String\<close>.
\<close>

definition flat_text :: "(jsnum \<Rightarrow> string) \<Rightarrow> json option \<Rightarrow> string" where
  "flat_text num v =
     (case v of
        None \<Rightarrow> []
      | Some JNull \<Rightarrow> []
      | Some JUndefined \<Rightarrow> []
      | Some (JNum NaN) \<Rightarrow> []
      | Some w \<Rightarrow> js_String num w)"

definition field_text :: "(jsnum \<Rightarrow> string) \<Rightarrow> json option \<Rightarrow> string" where
  "field_text num v =
     (case v of
        Some (JArr (x # xs)) \<Rightarrow> flat_text num (Some x)
      | _ \<Rightarrow> flat_text num v)"

text \<open>
  A validator runs on each element of an array and on any other value as a whole, and
  reports the element or value that fails.
\<close>

definition field_values :: "json option \<Rightarrow> json option list" where
  "field_values v = (case v of Some (JArr xs) \<Rightarrow> map Some xs | _ \<Rightarrow> [v])"

definition check_each ::
  "(string \<Rightarrow> bool) \<Rightarrow> (jsnum \<Rightarrow> string) \<Rightarrow> json option \<Rightarrow> string \<Rightarrow> string \<Rightarrow> verror list" where
  "check_each ok num v msg path =
     concat (map (\<lambda>x. check (ok (field_text num x)) x msg path) (field_values v))"

text \<open>\<open>body('email').trim().isEmail().withMessage(...).normalizeEmail()\<close>.\<close>

definition email_chain :: "runtime \<Rightarrow> string option \<Rightarrow> verror list \<times> string" where
  "email_chain rt v =
     (let e = trim_ws (to_string v)
      in (check (isEmail (lib rt) e) (Some (JStr e)) ''Invalid email format'' ''email'',
          normalizeEmail (lib rt) e))"

text \<open>
  \<open>body('bio').optional().trim().isLength({ max: 500 })\<close>: an absent field is left alone.
\<close>

definition bio_chain :: "string option \<Rightarrow> verror list \<times> string option" where
  "bio_chain v =
     (case v of
        None \<Rightarrow> ([], None)
      | Some b \<Rightarrow>
          (check (length (trim_ws b) \<le> 500) (Some (JStr (trim_ws b)))
             ''Bio must be less than 500 characters'' ''bio'',
           Some (trim_ws b)))"

definition register_chains :: "runtime \<Rightarrow> request \<Rightarrow> verror list \<times> request" where
  "register_chains rt req =
     (let username = trim_ws (to_string (b_username req));
          (email_errors, email) = email_chain rt (b_email req)
      in (check (username \<noteq> []) (Some (JStr username)) ''Username is required'' ''username'' @
          check (3 \<le> length username \<and> length username \<le> 30) (Some (JStr username))
            ''Username must be between 3 and 30 characters'' ''username'' @
          email_errors @
          check_each (\<lambda>s. 6 \<le> length s) (number_text (lib rt)) (b_password req)
            ''Password must be at least 6 characters long'' ''password'',
          req\<lparr>b_username := Some username, b_email := Some email\<rparr>))"

definition login_chains :: "runtime \<Rightarrow> request \<Rightarrow> verror list \<times> request" where
  "login_chains rt req =
     (let (email_errors, email) = email_chain rt (b_email req)
      in (email_errors @
          check_each (\<lambda>s. s \<noteq> []) (number_text (lib rt)) (b_password req)
            ''Password is required'' ''password'',
          req\<lparr>b_email := Some email\<rparr>))"

definition me_chains :: "runtime \<Rightarrow> request \<Rightarrow> verror list \<times> request" where
  "me_chains rt req =
     (let username = trim_ws (to_string (b_username req));
          (email_errors, email) = email_chain rt (b_email req)
      in (check (username \<noteq> []) (Some (JStr username)) ''Username is required'' ''username'' @
          email_errors,
          req\<lparr>b_username := Some username, b_email := Some email\<rparr>))"

definition author_chains :: "runtime \<Rightarrow> request \<Rightarrow> verror list \<times> request" where
  "author_chains rt req =
     (let name = trim_ws (to_string (b_name req));
          (email_errors, email) = email_chain rt (b_email req);
          (bio_errors, bio) = bio_chain (b_bio req)
      in (check (name \<noteq> []) (Some (JStr name)) ''Author name is required'' ''name'' @
          email_errors @ bio_errors,
          req\<lparr>b_name := Some name, b_email := Some email, b_bio := bio\<rparr>))"

section \<open>routes/auth.js\<close>

text \<open>
  \<open>bcrypt.hash(data, 10)\<close> and \<open>bcrypt.compare(data, hash)\<close> on the value of the body: they
  reject with an error unless the data is a string.
\<close>

definition hash_password :: "runtime \<Rightarrow> json option \<Rightarrow> string + string" where
  "hash_password rt v =
     (case v of
        None \<Rightarrow> Inl ''data and salt arguments required''
      | Some JNull \<Rightarrow> Inl ''data and salt arguments required''
      | Some JUndefined \<Rightarrow> Inl ''data and salt arguments required''
      | Some (JStr p) \<Rightarrow> Inr (bcrypt_hash (lib rt) p)
      | Some _ \<Rightarrow>
          Inl ''data must be a string or Buffer and salt must either be a salt string or a number of rounds'')"

definition compare_password :: "runtime \<Rightarrow> json option \<Rightarrow> string \<Rightarrow> string + bool" where
  "compare_password rt v h =
     (case v of
        None \<Rightarrow> Inl ''data and hash arguments required''
      | Some JNull \<Rightarrow> Inl ''data and hash arguments required''
      | Some JUndefined \<Rightarrow> Inl ''data and hash arguments required''
      | Some (JStr p) \<Rightarrow> Inr (bcrypt_compare (lib rt) p h)
      | Some _ \<Rightarrow> Inl ''data and hash must be strings'')"

definition register_handler :: "runtime \<Rightarrow> request \<Rightarrow> store \<Rightarrow> response \<times> store" where
  "register_handler rt req st =
     (let username = to_string (b_username req);
          email = to_string (b_email req);
          password = b_password req
      in case user_by_email st email of
           Some existingUser \<Rightarrow> (failure 409 ''User already exists'', st)
         | None \<Rightarrow>
             (case hash_password rt password of
                Inl err \<Rightarrow> (failure_with 500 ''Registration failed'' err, st)
              | Inr hashedPassword \<Rightarrow>
                  (case insert_user st username email hashedPassword (now_ms rt) of
                     (Inl err, st') \<Rightarrow> (failure_with 500 ''Registration failed'' err, st')
                   | (Inr user, st') \<Rightarrow>
                       (reply 201 [(''message'', JStr ''User registered successfully''),
                                   (''data'', user_json user), (''statusCode'', JInt 201)], st'))))"

definition register :: "runtime \<Rightarrow> request \<Rightarrow> store \<Rightarrow> response \<times> store" where
  "register rt req st =
     (case register_chains rt req of
        (errors, req') \<Rightarrow>
          (case validate errors req' of
             Respond r \<Rightarrow> (r, st)
           | Next rq \<Rightarrow> register_handler rt rq st))"

definition login_handler :: "runtime \<Rightarrow> request \<Rightarrow> store \<Rightarrow> response \<times> store" where
  "login_handler rt req st =
     (let email = to_string (b_email req);
          password = b_password req
      in case user_by_email st email of
           None \<Rightarrow> (failure 401 ''Invalid email or password'', st)
         | Some user \<Rightarrow>
             (case compare_password rt password (u_password user) of
                Inl err \<Rightarrow> (failure_with 500 ''Login failed'' err, st)
              | Inr match \<Rightarrow>
             if \<not> match then
               (failure 401 ''Invalid email or password'', st)
             else
               (case jwt_sign rt [(''id'', JInt (u_id user)), (''email'', JStr (u_email user))]
                       (ACCESS_TOKEN_SECRET (envr rt))
                       (or_default (ACCESS_TOKEN_EXPIRY (envr rt)) ''1h'') of
                  Inl err \<Rightarrow> (failure_with 500 ''Login failed'' err, st)
                | Inr accessToken \<Rightarrow>
                    (case jwt_sign rt [(''id'', JInt (u_id user)), (''email'', JStr (u_email user))]
                            (REFRESH_TOKEN_SECRET (envr rt))
                            (or_default (REFRESH_TOKEN_EXPIRY (envr rt)) ''7d'') of
                       Inl err \<Rightarrow> (failure_with 500 ''Login failed'' err, st)
                     | Inr refreshToken \<Rightarrow>
                         (reply 200
                            [(''message'', JStr ''Login successful''),
                             (''data'',
                              JObj [(''user'',
                                     JObj [(''id'', JInt (u_id user)),
                                           (''username'', JStr (u_username user)),
                                           (''email'', JStr (u_email user))]),
                                    (''accessToken'', JStr accessToken),
                                    (''refreshToken'', JStr refreshToken)]),
                             (''statusCode'', JInt 200)], st)))))"

definition login :: "runtime \<Rightarrow> request \<Rightarrow> store \<Rightarrow> response \<times> store" where
  "login rt req st =
     (case login_chains rt req of
        (errors, req') \<Rightarrow>
          (case validate errors req' of
             Respond r \<Rightarrow> (r, st)
           | Next rq \<Rightarrow> login_handler rt rq st))"

text \<open>\<open>{ id: payload.id }\<close>: an \<open>undefined\<close> id leaves the payload empty.\<close>

definition id_claim :: "(string \<times> json) list \<Rightarrow> (string \<times> json) list" where
  "id_claim pl = (case get_prop pl ''id'' of None \<Rightarrow> [] | Some v \<Rightarrow> [(''id'', v)])"

definition refresh_token :: "runtime \<Rightarrow> request \<Rightarrow> store \<Rightarrow> response \<times> store" where
  "refresh_token rt req st =
     (if to_string (b_refreshToken req) = [] then
        (failure 401 ''Refresh token is required'', st)
      else
        (case jwt_verify rt (to_string (b_refreshToken req)) (REFRESH_TOKEN_SECRET (envr rt)) of
           Inl err \<Rightarrow> (failure_with 403 ''Invalid refresh token'' err, st)
         | Inr pl \<Rightarrow>
             (case jwt_sign rt (id_claim pl) (ACCESS_TOKEN_SECRET (envr rt))
                     (or_default (ACCESS_TOKEN_EXPIRY (envr rt)) ''1h'') of
                Inl err \<Rightarrow> (failure_with 403 ''Invalid refresh token'' err, st)
              | Inr accessToken \<Rightarrow>
                  (reply 200 [(''message'', JStr ''Access token refreshed successfully''),
                              (''data'', JObj [(''accessToken'', JStr accessToken)]),
                              (''statusCode'', JInt 200)], st))))"

section \<open>routes/users.js\<close>

text \<open>
  A bearer-protected route: \<open>authenticate\<close> answers the request itself, or hands the
  payload of the token to what follows.
\<close>

definition protected ::
  "runtime \<Rightarrow> request \<Rightarrow> store \<Rightarrow> ((string \<times> json) list \<Rightarrow> response \<times> store) \<Rightarrow> response \<times> store" where
  "protected rt req st route =
     (case authenticate rt (authorization req) of
        Respond r \<Rightarrow> (r, st)
      | Next user \<Rightarrow> route user)"

definition get_me_handler :: "(string \<times> json) list \<Rightarrow> store \<Rightarrow> response \<times> store" where
  "get_me_handler user st =
     (case bind_id (get_prop user ''id'') of
        Inl err \<Rightarrow> (failure_with 500 ''Failed to retrieve user details'' err, st)
      | Inr None \<Rightarrow> (failure 404 ''User not found'', st)
      | Inr (Some i) \<Rightarrow>
          (case user_by_id st i of
             None \<Rightarrow> (failure 404 ''User not found'', st)
           | Some u \<Rightarrow>
               (reply 200 [(''success'', JBool True),
                           (''message'', JStr ''User details retrieved successfully''),
                           (''statusCode'', JInt 200), (''data'', user_json u)], st)))"

definition get_me :: "runtime \<Rightarrow> request \<Rightarrow> store \<Rightarrow> response \<times> store" where
  "get_me rt req st = protected rt req st (\<lambda>user. get_me_handler user st)"

definition delete_me_handler :: "(string \<times> json) list \<Rightarrow> store \<Rightarrow> response \<times> store" where
  "delete_me_handler user st =
     (case bind_id (get_prop user ''id'') of
        Inl err \<Rightarrow> (failure_with 500 ''Failed to delete user'' err, st)
      | Inr None \<Rightarrow> (failure 404 ''User not found'', st)
      | Inr (Some i) \<Rightarrow>
          (case user_by_id st i of
             None \<Rightarrow> (failure 404 ''User not found'', st)
           | Some deletedUser \<Rightarrow>
               (reply 200 [(''success'', JBool True), (''message'', JStr ''User deleted successfully''),
                           (''statusCode'', JInt 200), (''data'', user_json deletedUser)],
                snd (delete_user st i))))"

definition delete_me :: "runtime \<Rightarrow> request \<Rightarrow> store \<Rightarrow> response \<times> store" where
  "delete_me rt req st = protected rt req st (\<lambda>user. delete_me_handler user st)"

definition put_me_handler ::
  "runtime \<Rightarrow> (string \<times> json) list \<Rightarrow> request \<Rightarrow> store \<Rightarrow> response \<times> store" where
  "put_me_handler rt user req st =
     (let username = to_string (b_username req);
          email = to_string (b_email req)
      in if username = [] \<or> email = [] then
           (failure 400 ''Username and email are required'', st)
         else
           (case bind_id (get_prop user ''id'') of
              Inl err \<Rightarrow> (failure_with 500 ''Failed to update user details'' err, st)
            | Inr None \<Rightarrow> (failure 404 ''User not found'', st)
            | Inr (Some i) \<Rightarrow>
                (case user_by_id st i of
                   None \<Rightarrow> (failure 404 ''User not found'', st)
                 | Some updatedUser \<Rightarrow>
                     (case update_user st i username email (now_ms rt) of
                        (Inl err, st') \<Rightarrow> (failure_with 500 ''Failed to update user details'' err, st')
                      | (Inr rows, st') \<Rightarrow>
                          (reply 200 [(''success'', JBool True),
                                      (''message'', JStr ''User details updated successfully''),
                                      (''statusCode'', JInt 200),
                                      (''data'', first_row (map user_json rows))], st')))))"

definition put_me :: "runtime \<Rightarrow> request \<Rightarrow> store \<Rightarrow> response \<times> store" where
  "put_me rt req st =
     protected rt req st
       (\<lambda>user. case me_chains rt req of
                 (errors, req') \<Rightarrow>
                   (case validate errors req' of
                      Respond r \<Rightarrow> (r, st)
                    | Next rq \<Rightarrow> put_me_handler rt user rq st))"

section \<open>routes/authors.js\<close>

text \<open>
  \<open>const { page = 1, limit = process.env.PER_PAGE || 10, search = '''' } = req.query\<close>.
\<close>

definition page_of :: "request \<Rightarrow> jsval" where
  "page_of req = (case q_page req of None \<Rightarrow> VNum (Finite 1) | Some s \<Rightarrow> VStr s)"

definition limit_of :: "runtime \<Rightarrow> request \<Rightarrow> jsval" where
  "limit_of rt req =
     (case q_limit req of
        Some s \<Rightarrow> VStr s
      | None \<Rightarrow>
          (case PER_PAGE (envr rt) of
             None \<Rightarrow> VNum (Finite 10)
           | Some s \<Rightarrow> if s = [] then VNum (Finite 10) else VStr s))"

text \<open>The rows \<open>baseQuery\<close> selects: all of them, or those whose name matches the search.\<close>

definition matching :: "request \<Rightarrow> store \<Rightarrow> author list" where
  "matching req st =
     (let search = to_string (q_search req)
      in if search \<noteq> [] then filter (\<lambda>a. ilike (a_name a) (''%'' @ search @ ''%'')) (authors st)
         else authors st)"

definition list_authors_handler :: "runtime \<Rightarrow> request \<Rightarrow> store \<Rightarrow> response \<times> store" where
  "list_authors_handler rt req st =
     (let page = page_of req;
          limit = limit_of rt req;
          offset = js_mul (js_pred (parseInt_v page)) (parseInt_v limit);
          totalAuthors = Finite (of_nat (length (matching req st)))
      in case sql_offset offset (order_desc (matching req st)) of
           Inl err \<Rightarrow> (failure_with 500 ''Failed to retrieve authors'' err, st)
         | Inr skipped \<Rightarrow>
             (case sql_limit (parseInt_v limit) skipped of
                Inl err \<Rightarrow> (failure_with 500 ''Failed to retrieve authors'' err, st)
              | Inr rows \<Rightarrow>
                  (reply 200
                     [(''success'', JBool True), (''message'', JStr ''Authors retrieved successfully''),
                      (''statusCode'', JInt 200), (''data'', JArr (map author_json rows)),
                      (''pagination'',
                       JObj [(''total'', JNum totalAuthors),
                             (''page'', JNum (Number_v page)),
                             (''limit'', JNum (Number_v limit)),
                             (''pages'', JNum (js_ceil (js_div totalAuthors (Number_v limit))))])],
                   st)))"

definition list_authors :: "runtime \<Rightarrow> request \<Rightarrow> store \<Rightarrow> response \<times> store" where
  "list_authors rt req st = protected rt req st (\<lambda>user. list_authors_handler rt req st)"

definition get_author_handler :: "request \<Rightarrow> store \<Rightarrow> response \<times> store" where
  "get_author_handler req st =
     (case pg_int (param_id req) of
        Inl err \<Rightarrow> (failure_with 500 ''Failed to retrieve author'' err, st)
      | Inr i \<Rightarrow>
          (case author_by_id st i of
             None \<Rightarrow> (failure 404 ''Author not found'', st)
           | Some author \<Rightarrow>
               (reply 200 [(''success'', JBool True), (''message'', JStr ''Author retrieved successfully''),
                           (''statusCode'', JInt 200), (''data'', author_json author)], st)))"

definition get_author :: "runtime \<Rightarrow> request \<Rightarrow> store \<Rightarrow> response \<times> store" where
  "get_author rt req st = protected rt req st (\<lambda>user. get_author_handler req st)"

definition create_author_handler :: "runtime \<Rightarrow> request \<Rightarrow> store \<Rightarrow> response \<times> store" where
  "create_author_handler rt req st =
     (case insert_author st (to_string (b_name req)) (to_string (b_email req)) (b_bio req) (now_ms rt) of
        (Inl err, st') \<Rightarrow> (failure_with 500 ''Failed to create author'' err, st')
      | (Inr newAuthor, st') \<Rightarrow>
          (reply 201 [(''success'', JBool True), (''message'', JStr ''Author created successfully''),
                      (''statusCode'', JInt 201), (''data'', author_json newAuthor)], st'))"

definition create_author :: "runtime \<Rightarrow> request \<Rightarrow> store \<Rightarrow> response \<times> store" where
  "create_author rt req st =
     protected rt req st
       (\<lambda>user. case author_chains rt req of
                 (errors, req') \<Rightarrow>
                   (case validate errors req' of
                      Respond r \<Rightarrow> (r, st)
                    | Next rq \<Rightarrow> create_author_handler rt rq st))"

definition update_author_handler :: "runtime \<Rightarrow> request \<Rightarrow> store \<Rightarrow> response \<times> store" where
  "update_author_handler rt req st =
     (case pg_int (param_id req) of
        Inl err \<Rightarrow> (failure_with 500 ''Failed to update author'' err, st)
      | Inr i \<Rightarrow>
          (case author_by_id st i of
             None \<Rightarrow> (failure 404 ''Author not found'', st)
           | Some updatedAuthor \<Rightarrow>
               (case update_author st i (to_string (b_name req)) (to_string (b_email req))
                       (b_bio req) (now_ms rt) of
                  (Inl err, st') \<Rightarrow> (failure_with 500 ''Failed to update author'' err, st')
                | (Inr rows, st') \<Rightarrow>
                    (reply 200 [(''success'', JBool True),
                                (''message'', JStr ''Author updated successfully''),
                                (''statusCode'', JInt 200),
                                (''data'', first_row (map author_json rows))], st'))))"

definition update_author_route :: "runtime \<Rightarrow> request \<Rightarrow> store \<Rightarrow> response \<times> store" where
  "update_author_route rt req st =
     protected rt req st
       (\<lambda>user. case author_chains rt req of
                 (errors, req') \<Rightarrow>
                   (case validate errors req' of
                      Respond r \<Rightarrow> (r, st)
                    | Next rq \<Rightarrow> update_author_handler rt rq st))"

definition delete_author_handler :: "request \<Rightarrow> store \<Rightarrow> response \<times> store" where
  "delete_author_handler req st =
     (case pg_int (param_id req) of
        Inl err \<Rightarrow> (failure_with 500 ''Failed to delete author'' err, st)
      | Inr i \<Rightarrow>
          (case delete_authors st [i] of
             (deletedAuthor, st') \<Rightarrow>
               if deletedAuthor = 0 then (failure 404 ''Author not found'', st')
               else (reply 200 [(''success'', JBool True),
                                (''message'', JStr ''Author deleted successfully''),
                                (''statusCode'', JInt 200)], st')))"

definition delete_author :: "runtime \<Rightarrow> request \<Rightarrow> store \<Rightarrow> response \<times> store" where
  "delete_author rt req st = protected rt req st (\<lambda>user. delete_author_handler req st)"

text \<open>The values of \<open>whereIn('id', ids)\<close>: \<open>null\<close> matches no row.\<close>

fun bind_ids :: "json list \<Rightarrow> string + int list" where
  "bind_ids [] = Inr []"
| "bind_ids (v # vs) =
     (if v = JNull then bind_ids vs
      else (case bind_int v of
              Inl err \<Rightarrow> Inl err
            | Inr i \<Rightarrow> (case bind_ids vs of Inl err \<Rightarrow> Inl err | Inr is \<Rightarrow> Inr (i # is))))"

text \<open>The decimal rendering of a count in a template string.\<close>

definition digit_char :: "nat \<Rightarrow> char" where
  "digit_char d = ''0123456789'' ! (d mod 10)"

fun show_nat :: "nat \<Rightarrow> string" where
  "show_nat n = (if n < 10 then [digit_char n] else show_nat (n div 10) @ [digit_char n])"

text \<open>\<open>Array.isArray(ids)\<close> with the elements, or nothing.\<close>

definition as_array :: "json option \<Rightarrow> json list option" where
  "as_array v = (case v of Some (JArr xs) \<Rightarrow> Some xs | _ \<Rightarrow> None)"

definition batch_delete_handler :: "request \<Rightarrow> store \<Rightarrow> response \<times> store" where
  "batch_delete_handler req st =
     (case as_array (b_ids req) of
        None \<Rightarrow> (failure 400 ''Invalid or empty IDs array'', st)
      | Some ids \<Rightarrow>
          if length ids = 0 then (failure 400 ''Invalid or empty IDs array'', st)
          else
            (case bind_ids ids of
               Inl err \<Rightarrow> (failure_with 500 ''Failed to delete authors'' err, st)
             | Inr is \<Rightarrow>
                 (case delete_authors st is of
                    (deletedCount, st') \<Rightarrow>
                      if deletedCount = 0 then
                        (failure 404 ''No authors found with the provided IDs'', st')
                      else
                        (reply 200 [(''success'', JBool True),
                                    (''message'',
                                     JStr (show_nat deletedCount @ '' authors deleted successfully'')),
                                    (''statusCode'', JInt 200)], st'))))"

definition batch_delete :: "runtime \<Rightarrow> request \<Rightarrow> store \<Rightarrow> response \<times> store" where
  "batch_delete rt req st = protected rt req st (\<lambda>user. batch_delete_handler req st)"

section \<open>The router\<close>

datatype endpoint =
    Register | Login | RefreshToken
  | GetMe | PutMe | DeleteMe
  | ListAuthors | GetAuthor | CreateAuthor | UpdateAuthor | DeleteAuthor | BatchDeleteAuthors

fun handle :: "runtime \<Rightarrow> endpoint \<Rightarrow> request \<Rightarrow> store \<Rightarrow> response \<times> store" where
  "handle rt Register req st = register rt req st"
| "handle rt Login req st = login rt req st"
| "handle rt RefreshToken req st = refresh_token rt req st"
| "handle rt GetMe req st = get_me rt req st"
| "handle rt PutMe req st = put_me rt req st"
| "handle rt DeleteMe req st = delete_me rt req st"
| "handle rt ListAuthors req st = list_authors rt req st"
| "handle rt GetAuthor req st = get_author rt req st"
| "handle rt CreateAuthor req st = create_author rt req st"
| "handle rt UpdateAuthor req st = update_author_route rt req st"
| "handle rt DeleteAuthor req st = delete_author rt req st"
| "handle rt BatchDeleteAuthors req st = batch_delete rt req st"

text \<open>The routes that have \<open>authenticate\<close> in front.\<close>

definition bearer_protected :: "endpoint \<Rightarrow> bool" where
  "bearer_protected ep = (ep \<noteq> Register \<and> ep \<noteq> Login \<and> ep \<noteq> RefreshToken)"

section \<open>A sample deployment\<close>

text \<open>
  Concrete packages, environment and data on which the theorems below are exercised.
  The sample token codec knows three token strings.
\<close>

definition sample_token :: "string \<Rightarrow> int \<Rightarrow> jwt" where
  "sample_token secret expiry =
     \<lparr>payload = [(''id'', JInt 1), (''email'', JStr ''ann@example.com''), (''iat'', JInt 1000),
                 (''exp'', JInt expiry)],
      signed_with = secret\<rparr>"

definition sample_libs :: libs where
  "sample_libs =
     \<lparr>jwt_encode = (\<lambda>t. if signed_with t = ''access-secret'' then ''access.token''
                         else if signed_with t = ''refresh-secret'' then ''refresh.token''
                         else ''other.token''),
      jwt_decode = (\<lambda>s. if s = ''access.token'' then Some (sample_token ''access-secret'' 4600)
                         else if s = ''refresh.token'' then Some (sample_token ''refresh-secret'' 605800)
                         else if s = ''stale.token'' then Some (sample_token ''access-secret'' 1500)
                         else None),
      timespan = (\<lambda>s. if s = ''1h'' then Some 3600 else if s = ''7d'' then Some 604800 else None),
      bcrypt_hash = (\<lambda>p. ''$2b$10$'' @ p),
      bcrypt_compare = (\<lambda>p h. h = ''$2b$10$'' @ p),
      isEmail = (\<lambda>s. CHR ''@'' \<in> set s),
      normalizeEmail = map to_lower,
      number_text = (\<lambda>n. case n of Finite q \<Rightarrow> show_nat (nat \<lfloor>q\<rfloor>) | _ \<Rightarrow> ''NaN'')\<rparr>"

definition sample_env :: env where
  "sample_env =
     \<lparr>ACCESS_TOKEN_SECRET = Some ''access-secret'', REFRESH_TOKEN_SECRET = Some ''refresh-secret'',
      ACCESS_TOKEN_EXPIRY = None, REFRESH_TOKEN_EXPIRY = Some ''7d'', PER_PAGE = None\<rparr>"

definition sample_rt :: runtime where
  "sample_rt = \<lparr>envr = sample_env, lib = sample_libs, now_ms = 2000000\<rparr>"

definition blank :: request where
  "blank =
     \<lparr>authorization = None, param_id = [], q_page = None, q_limit = None, q_search = None,
      b_username = None, b_email = None, b_password = None, b_refreshToken = None, b_name = None,
      b_bio = None, b_ids = None\<rparr>"

definition signed_in :: request where
  "signed_in = blank\<lparr>authorization := Some ''Bearer access.token''\<rparr>"

definition ann :: user where
  "ann = \<lparr>u_id = 1, u_username = ''ann'', u_email = ''ann@example.com'',
          u_password = ''$2b$10$correct horse'', u_created_at = 1000, u_updated_at = 1000\<rparr>"

definition writer :: "nat \<Rightarrow> author" where
  "writer k = \<lparr>a_id = int k, a_name = ''Writer'', a_email = show_nat k @ ''@example.com'',
               a_bio = None, a_created_at = 5000 + k, a_updated_at = 5000 + k\<rparr>"

definition sample_store :: store where
  "sample_store =
     \<lparr>users = [ann], authors = [writer 1, writer 2, writer 3], users_seq = 1, authors_seq = 3\<rparr>"


section \<open>What a response shows\<close>

text \<open>Every property name and every string that occurs in a value, at any depth.\<close>

fun json_keys :: "json \<Rightarrow> string list" where
  "json_keys (JObj ps) = concat (map (\<lambda>kv. fst kv # json_keys (snd kv)) ps)"
| "json_keys (JArr xs) = concat (map json_keys xs)"
| "json_keys v = []"

fun json_strings :: "json \<Rightarrow> string list" where
  "json_strings (JStr s) = [s]"
| "json_strings (JObj ps) = concat (map (\<lambda>kv. json_strings (snd kv)) ps)"
| "json_strings (JArr xs) = concat (map json_strings xs)"
| "json_strings v = []"

definition no_password_key :: "response \<Rightarrow> bool" where
  "no_password_key r = (''password'' \<notin> set (json_keys (body r)))"

section \<open>Basic facts\<close>

declare show_nat.simps [simp del]

lemma JInt_not_undefined [simp]: "JInt i \<noteq> JUndefined" "JUndefined \<noteq> JInt i"
  by (simp_all add: JInt_def)

lemma failure_eq:
  "failure code msg =
     \<lparr>status = code,
      body = JObj [(''success'', JBool False), (''message'', JStr msg), (''data'', JNull),
                   (''errors'', JNull), (''statusCode'', JInt (int code))]\<rparr>"
  by (simp add: failure_def reply_def responseFormat_def)

lemma failure_with_eq:
  "failure_with code msg err =
     \<lparr>status = code,
      body = JObj [(''success'', JBool False), (''message'', JStr msg), (''data'', JNull),
                   (''errors'', JStr err), (''statusCode'', JInt (int code))]\<rparr>"
  by (simp add: failure_with_def reply_def responseFormat_def)

lemma is_whole_JInt [simp]: "is_whole (JInt i)"
  by (simp add: is_whole_def JInt_def)

lemma failure_is_envelope: "is_envelope (body (failure code msg))"
  by (simp add: failure_eq is_envelope_def)

lemma failure_with_is_envelope: "is_envelope (body (failure_with code msg err))"
  by (simp add: failure_with_eq is_envelope_def)

lemma protected_Next:
  "authenticate rt (authorization req) = Next user \<Longrightarrow> protected rt req st route = route user"
  by (simp add: protected_def)

lemma protected_Respond:
  "authenticate rt (authorization req) = Respond r \<Longrightarrow> protected rt req st route = (r, st)"
  by (simp add: protected_def)

lemma insert_author_duplicate:
  assumes "email \<in> set (map a_email (authors st))"
  shows "\<exists>err. insert_author st name email bio now = (Inl err, st\<lparr>authors_seq := authors_seq st + 1\<rparr>)"
  using assms by (simp add: insert_author_def Let_def split: option.splits)

lemma update_author_duplicate:
  assumes "i \<in> set (map a_id (authors st))"
    and "email \<in> set (map a_email (filter (\<lambda>a. a_id a \<noteq> i) (authors st)))"
  shows "\<exists>err. update_author st i name email bio now = (Inl err, st)"
  using assms by (simp add: update_author_def Let_def split: option.splits)

lemma author_by_id_Some:
  "i \<in> set (map a_id (authors st)) \<Longrightarrow> \<exists>a. author_by_id st i = Some a"
  unfolding author_by_id_def
  by (cases "find (\<lambda>a. a_id a = i) (authors st)") (auto simp: find_None_iff)

lemma count_one_of_distinct:
  "distinct (map f xs) \<Longrightarrow> e \<in> set (map f xs) \<Longrightarrow> length (filter (\<lambda>x. f x = e) xs) = 1"
proof (induction xs)
  case Nil
  then show ?case by simp
next
  case (Cons x xs)
  show ?case
  proof (cases "f x = e")
    case True
    with Cons.prems have "e \<notin> f ` set xs" by auto
    then have "filter (\<lambda>x. f x = e) xs = []" by (auto simp: filter_empty_conv)
    with True show ?thesis by simp
  next
    case False
    with Cons show ?thesis by auto
  qed
qed

lemma sample_access:
  "authenticate sample_rt (Some ''Bearer access.token'') =
     Next [(''id'', JInt 1), (''email'', JStr ''ann@example.com''), (''iat'', JInt 1000),
           (''exp'', JInt 4600)]"
  by (simp add: authenticate_def startsWith_def at_index_def jwt_verify_def sample_rt_def
      sample_libs_def sample_env_def sample_token_def clockTimestamp_def JInt_def)

lemma sample_signed_in:
  "authenticate sample_rt (authorization signed_in) =
     Next [(''id'', JInt 1), (''email'', JStr ''ann@example.com''), (''iat'', JInt 1000),
           (''exp'', JInt 4600)]"
  by (simp add: signed_in_def blank_def sample_access)

section \<open>The response contract\<close>

lemma validate_Respond:
  "validate errors nxt = Respond r \<Longrightarrow>
     r = \<lparr>status = 400,
          body = JObj [(''status'', JStr ''error''), (''message'', JStr ''Validation failed''),
                       (''errors'', JArr (map verror_json errors))]\<rparr>"
  by (simp add: validate_def split: if_splits)

lemma authenticate_Respond:
  "authenticate rt h = Respond r \<Longrightarrow>
     body r = JObj [(''error'', JStr ''Authorization header missing or malformed'')] \<or>
     body r = JObj [(''error'', JStr ''Access token not provided'')] \<or>
     body r = JObj [(''error'', JStr ''Invalid or expired token'')]"
  by (auto simp: authenticate_def split: option.splits if_splits sum.splits)

text \<open>
  C1. Every answer is claimed to have the envelope shape, those of the validation gate and
  of the credential verifier included. The code does otherwise: whenever \<open>validate\<close> or
  \<open>authenticate\<close> answers a request itself, the body is not an envelope (\<open>validate\<close>
  sends \<open>{status, message, errors}\<close>, \<open>authenticate\<close> sends \<open>{error}\<close>).
\<close>

theorem middleware_response_not_envelope:
  "(validate errors nxt = Respond r \<longrightarrow> \<not> is_envelope (body r)) \<and>
   (authenticate rt h = Respond r' \<longrightarrow> \<not> is_envelope (body r'))"
proof (intro conjI impI)
  assume "validate errors nxt = Respond r"
  from validate_Respond [OF this] show "\<not> is_envelope (body r)"
    by (simp add: is_envelope_def)
next
  assume "authenticate rt h = Respond r'"
  from authenticate_Respond [OF this] show "\<not> is_envelope (body r')"
    by (auto simp: is_envelope_def)
qed

theorem middleware_response_not_envelope_witness:
  "\<not> is_envelope
       (JObj [(''status'', JStr ''error''), (''message'', JStr ''Validation failed''),
              (''errors'', JArr [JObj [(''type'', JStr ''field''), (''value'', JStr ''abc''),
                 (''msg'', JStr ''Password must be at least 6 characters long''),
                 (''path'', JStr ''password''), (''location'', JStr ''body'')]])]) \<and>
   \<not> is_envelope (JObj [(''error'', JStr ''Authorization header missing or malformed'')])"
  using middleware_response_not_envelope
    [of "[\<lparr>ve_value = Some (JStr ''abc''), ve_msg = ''Password must be at least 6 characters long'',
            ve_path = ''password''\<rparr>]" "()"
        "\<lparr>status = 400,
          body = JObj [(''status'', JStr ''error''), (''message'', JStr ''Validation failed''),
              (''errors'', JArr [JObj [(''type'', JStr ''field''), (''value'', JStr ''abc''),
                 (''msg'', JStr ''Password must be at least 6 characters long''),
                 (''path'', JStr ''password''), (''location'', JStr ''body'')]])]\<rparr>"
        sample_rt None
        "\<lparr>status = 401,
          body = JObj [(''error'', JStr ''Authorization header missing or malformed'')]\<rparr>"]
  by (simp add: validate_def authenticate_def verror_json_def)

section \<open>Uniqueness of an author's e-mail\<close>

text \<open>
  C2. An author-create (or author-update) request whose e-mail is that of a stored author
  is claimed to fail with a 409 conflict. The store refuses the row, so the rows of the
  table are unchanged and a unique e-mail stays unique; but the handlers have no branch
  for the conflict, and the refusal leaves through the general \<open>catch\<close> as a 500
  (\<open>Failed to create author\<close>, \<open>Failed to update author\<close>). The registration handler
  answers the same situation for users with a 409.
\<close>

theorem author_duplicate_email_is_500:
  assumes auth: "authenticate rt (authorization req) = Next user"
    and valid: "author_chains rt req = ([], rq)"
    and dup: "to_string (b_email rq) \<in> set (map a_email (authors st))"
  shows "status (fst (create_author rt req st)) = 500 \<and>
         json_get (body (fst (create_author rt req st))) ''statusCode'' = Some (JInt 500) \<and>
         json_get (body (fst (create_author rt req st))) ''message'' = Some (JStr ''Failed to create author'') \<and>
         authors (snd (create_author rt req st)) = authors st \<and>
         (distinct (map a_email (authors st)) \<longrightarrow>
            length (filter (\<lambda>a. a_email a = to_string (b_email rq))
                      (authors (snd (create_author rt req st)))) = 1) \<and>
         (pg_int (param_id rq) = Inr i \<and> i \<in> set (map a_id (authors st)) \<and>
          to_string (b_email rq) \<in> set (map a_email (filter (\<lambda>a. a_id a \<noteq> i) (authors st))) \<longrightarrow>
            status (fst (update_author_route rt req st)) = 500 \<and>
            json_get (body (fst (update_author_route rt req st))) ''message'' =
              Some (JStr ''Failed to update author'') \<and>
            snd (update_author_route rt req st) = st)"
proof -
  obtain err where ins:
    "insert_author st (to_string (b_name rq)) (to_string (b_email rq)) (b_bio rq) (now_ms rt)
       = (Inl err, st\<lparr>authors_seq := authors_seq st + 1\<rparr>)"
    using insert_author_duplicate [OF dup] by blast
  have create: "create_author rt req st =
      (failure_with 500 ''Failed to create author'' err, st\<lparr>authors_seq := authors_seq st + 1\<rparr>)"
    by (simp add: create_author_def protected_Next [OF auth] valid validate_def
        create_author_handler_def ins)
  have upd: "status (fst (update_author_route rt req st)) = 500 \<and>
            json_get (body (fst (update_author_route rt req st))) ''message'' =
              Some (JStr ''Failed to update author'') \<and>
            snd (update_author_route rt req st) = st"
    if id: "pg_int (param_id rq) = Inr i" and ex: "i \<in> set (map a_id (authors st))"
      and other: "to_string (b_email rq) \<in> set (map a_email (filter (\<lambda>a. a_id a \<noteq> i) (authors st)))"
  proof -
    obtain a where a: "author_by_id st i = Some a"
      using author_by_id_Some [OF ex] by blast
    obtain err' where u:
      "update_author st i (to_string (b_name rq)) (to_string (b_email rq)) (b_bio rq) (now_ms rt)
         = (Inl err', st)"
      using update_author_duplicate [OF ex other] by blast
    have "update_author_route rt req st = (failure_with 500 ''Failed to update author'' err', st)"
      by (simp add: update_author_route_def protected_Next [OF auth] valid validate_def
          update_author_handler_def id a u)
    then show ?thesis by (simp add: failure_with_eq json_get_def)
  qed
  from create dup upd show ?thesis
    by (simp add: failure_with_eq json_get_def count_one_of_distinct)
qed

theorem author_duplicate_email_is_500_witness:
  "status (fst (create_author sample_rt
      (signed_in\<lparr>param_id := ''1'', b_name := Some ''Ann'', b_email := Some ''3@example.com''\<rparr>)
      sample_store)) = 500 \<and>
   authors (snd (create_author sample_rt
      (signed_in\<lparr>param_id := ''1'', b_name := Some ''Ann'', b_email := Some ''3@example.com''\<rparr>)
      sample_store)) = [writer 1, writer 2, writer 3] \<and>
   status (fst (update_author_route sample_rt
      (signed_in\<lparr>param_id := ''1'', b_name := Some ''Ann'', b_email := Some ''3@example.com''\<rparr>)
      sample_store)) = 500"
proof -
  let ?req = "signed_in\<lparr>param_id := ''1'', b_name := Some ''Ann'', b_email := Some ''3@example.com''\<rparr>"
  let ?rq = "signed_in\<lparr>param_id := ''1'', b_name := Some ''Ann'', b_email := Some ''3@example.com'',
                          b_bio := None\<rparr>"
  have auth: "authenticate sample_rt (authorization ?req) =
     Next [(''id'', JInt 1), (''email'', JStr ''ann@example.com''), (''iat'', JInt 1000),
           (''exp'', JInt 4600)]"
    using sample_signed_in by simp
  have valid: "author_chains sample_rt ?req = ([], ?rq)"
    by (simp add: author_chains_def email_chain_def bio_chain_def check_def to_string_def
        trim_ws_def is_ws_def sample_rt_def sample_libs_def to_lower_def signed_in_def blank_def)
  have dup: "to_string (b_email ?rq) \<in> set (map a_email (authors sample_store))"
    by (simp add: to_string_def sample_store_def writer_def show_nat.simps digit_char_def)
  have id: "pg_int (param_id ?rq) = Inr 1"
    by (simp add: pg_int_def take_sign_def trim_ws_def is_ws_def all_digits_def digit_of_def
        from_digits_def in_int4_def)
  have ex: "(1::int) \<in> set (map a_id (authors sample_store))"
    by (simp add: sample_store_def writer_def)
  have other: "to_string (b_email ?rq) \<in>
      set (map a_email (filter (\<lambda>a. a_id a \<noteq> 1) (authors sample_store)))"
    by (simp add: to_string_def sample_store_def writer_def show_nat.simps digit_char_def)
  have uniq: "distinct (map a_email (authors sample_store))"
    by (simp add: sample_store_def writer_def show_nat.simps digit_char_def)
  from author_duplicate_email_is_500 [OF auth valid dup, of 1] id ex other uniq
  show ?thesis by (simp add: sample_store_def)
qed

section \<open>Batch delete without ids\<close>

lemma batch_reject:
  assumes "as_array (b_ids req) = None \<or> as_array (b_ids req) = Some []"
  shows "batch_delete_handler req st = (failure 400 ''Invalid or empty IDs array'', st)"
  using assms by (auto simp: batch_delete_handler_def)

text \<open>
  C6. A batch-delete request whose \<open>ids\<close> is an empty array or no array at all: the
  store is left as it was and the answer does not depend on the store (nothing is read,
  nothing is written); and once the request is past the bearer check in front of the
  route, the answer is the 400 envelope \<open>Invalid or empty IDs array\<close>.
\<close>

theorem batch_delete_without_ids:
  assumes ids: "as_array (b_ids req) = None \<or> as_array (b_ids req) = Some []"
  shows "snd (batch_delete rt req st) = st \<and>
         fst (batch_delete rt req st') = fst (batch_delete rt req st) \<and>
         (\<forall>user. authenticate rt (authorization req) = Next user \<longrightarrow>
            batch_delete rt req st = (failure 400 ''Invalid or empty IDs array'', st) \<and>
            status (fst (batch_delete rt req st)) = 400 \<and>
            is_envelope (body (fst (batch_delete rt req st))) \<and>
            json_get (body (fst (batch_delete rt req st))) ''statusCode'' = Some (JInt 400))"
proof (cases "authenticate rt (authorization req)")
  case (Respond r)
  then show ?thesis
    by (simp add: batch_delete_def protected_Respond)
next
  case (Next user)
  have "batch_delete rt req s = (failure 400 ''Invalid or empty IDs array'', s)" for s
    by (simp add: batch_delete_def protected_Next [OF Next] batch_reject [OF ids])
  then show ?thesis
    by (simp add: failure_is_envelope) (simp add: failure_eq json_get_def)
qed

theorem batch_delete_without_ids_witness:
  "batch_delete sample_rt (signed_in\<lparr>b_ids := Some (JArr [])\<rparr>) sample_store =
     (\<lparr>status = 400,
       body = JObj [(''success'', JBool False), (''message'', JStr ''Invalid or empty IDs array''),
                    (''data'', JNull), (''errors'', JNull), (''statusCode'', JInt 400)]\<rparr>,
      sample_store)"
proof -
  have ids: "as_array (b_ids (signed_in\<lparr>b_ids := Some (JArr [])\<rparr>)) = None \<or>
             as_array (b_ids (signed_in\<lparr>b_ids := Some (JArr [])\<rparr>)) = Some []"
    by (simp add: as_array_def)
  have auth: "authenticate sample_rt (authorization (signed_in\<lparr>b_ids := Some (JArr [])\<rparr>)) =
     Next [(''id'', JInt 1), (''email'', JStr ''ann@example.com''), (''iat'', JInt 1000),
           (''exp'', JInt 4600)]"
    using sample_signed_in by simp
  from batch_delete_without_ids [OF ids, of sample_rt sample_store sample_store] auth
  show ?thesis by (simp add: failure_eq)
qed

section \<open>Deleting a user that is not there\<close>

lemma user_by_id_None:
  "i \<notin> set (map u_id (users st)) \<Longrightarrow> user_by_id st i = None"
  by (auto simp: user_by_id_def find_None_iff)

text \<open>
  C7. A delete-user request whose token carries the user id \<open>i\<close>, when no stored user has
  that id: the answer is the 404 envelope \<open>User not found\<close>, and the store after the
  request is the store before it.
\<close>

theorem delete_unknown_user_is_404:
  assumes auth: "authenticate rt (authorization req) = Next user"
    and id: "bind_id (get_prop user ''id'') = Inr (Some i)"
    and unknown: "i \<notin> set (map u_id (users st))"
  shows "delete_me rt req st = (failure 404 ''User not found'', st) \<and>
         status (fst (delete_me rt req st)) = 404 \<and>
         is_envelope (body (fst (delete_me rt req st))) \<and>
         json_get (body (fst (delete_me rt req st))) ''statusCode'' = Some (JInt 404) \<and>
         snd (delete_me rt req st) = st"
proof -
  have "delete_me rt req st = (failure 404 ''User not found'', st)"
    by (simp add: delete_me_def protected_Next [OF auth] delete_me_handler_def id
        user_by_id_None [OF unknown])
  then show ?thesis
    by (simp add: failure_is_envelope) (simp add: failure_eq json_get_def)
qed

theorem delete_unknown_user_is_404_witness:
  "delete_me sample_rt signed_in (sample_store\<lparr>users := []\<rparr>) =
     (\<lparr>status = 404,
       body = JObj [(''success'', JBool False), (''message'', JStr ''User not found''),
                    (''data'', JNull), (''errors'', JNull), (''statusCode'', JInt 404)]\<rparr>,
      sample_store\<lparr>users := []\<rparr>)"
proof -
  have id: "bind_id (get_prop [(''id'', JInt 1), (''email'', JStr ''ann@example.com''),
              (''iat'', JInt 1000), (''exp'', JInt 4600)] ''id'') = Inr (Some 1)"
    by (simp add: bind_id_def bind_int_def JInt_def in_int4_def)
  have unknown: "(1::int) \<notin> set (map u_id (users (sample_store\<lparr>users := []\<rparr>)))"
    by simp
  from delete_unknown_user_is_404 [OF sample_signed_in id unknown]
  show ?thesis by (simp add: failure_eq)
qed

section \<open>Paging with a limit of zero\<close>








section \<open>Bearer authentication\<close>

lemma split_on_no_separator: "c \<notin> set s \<Longrightarrow> split_on c s = [s]"
  by (induction s) auto

lemma jwt_verify_wrong_secret:
  assumes "jwt_decode (lib rt) token = Some t" and "Some (signed_with t) \<noteq> secret"
  shows "\<exists>err. jwt_verify rt token secret = Inl err"
  using assms by (cases secret) (auto simp: jwt_verify_def)

lemma jwt_verify_expired:
  assumes "jwt_decode (lib rt) token = Some t"
    and "get_prop (payload t) ''exp'' = Some (JNum (Finite e))"
    and "e \<le> of_int (clockTimestamp rt)"
  shows "\<exists>err. jwt_verify rt token secret = Inl err"
  using assms
  by (cases secret)
     (auto simp: jwt_verify_def split: option.splits json.splits jsnum.splits)

lemma authenticate_rejects:
  assumes tok: "token \<noteq> []" "CHR '' '' \<notin> set token"
    and bad: "jwt_verify rt token (ACCESS_TOKEN_SECRET (envr rt)) = Inl err"
  shows "authenticate rt (Some (''Bearer '' @ token)) =
           Respond \<lparr>status = 403, body = JObj [(''error'', JStr ''Invalid or expired token'')]\<rparr>"
  using tok(1)
  by (simp add: authenticate_def startsWith_def split_on_no_separator [OF tok(2)] at_index_def bad)

lemma handle_rejected:
  assumes "bearer_protected ep" and "authenticate rt (authorization req) = Respond r"
  shows "handle rt ep req st = (r, st)"
  using assms
  by (cases ep)
     (simp_all add: bearer_protected_def get_me_def put_me_def delete_me_def list_authors_def
        get_author_def create_author_def update_author_route_def delete_author_def
        batch_delete_def protected_Respond)

text \<open>
  C4. Let the access-token secret and the refresh-token secret differ, and let a request
  carry \<open>Bearer token\<close> where the token is signed under the refresh-token secret, or
  under any secret that is not the access-token secret, or carries an \<open>exp\<close> that has
  passed. Then \<open>authenticate\<close> answers 403 itself: on every bearer-protected route the
  answer is that 403 and the store is untouched, whatever the handler behind it would
  do. In particular a refresh token is not accepted in place of an access token.
\<close>

theorem foreign_or_expired_token_rejected:
  assumes differ: "ACCESS_TOKEN_SECRET (envr rt) \<noteq> REFRESH_TOKEN_SECRET (envr rt)"
    and header: "authorization req = Some (''Bearer '' @ token)"
    and tok: "token \<noteq> []" "CHR '' '' \<notin> set token"
    and dec: "jwt_decode (lib rt) token = Some t"
    and bad: "Some (signed_with t) = REFRESH_TOKEN_SECRET (envr rt) \<or>
              Some (signed_with t) \<noteq> ACCESS_TOKEN_SECRET (envr rt) \<or>
              (\<exists>e. get_prop (payload t) ''exp'' = Some (JNum (Finite e)) \<and>
                   e \<le> of_int (clockTimestamp rt))"
    and route: "bearer_protected ep"
  shows "authenticate rt (authorization req) =
           Respond \<lparr>status = 403, body = JObj [(''error'', JStr ''Invalid or expired token'')]\<rparr> \<and>
         (\<forall>handler. protected rt req st handler =
           (\<lparr>status = 403, body = JObj [(''error'', JStr ''Invalid or expired token'')]\<rparr>, st)) \<and>
         handle rt ep req st =
           (\<lparr>status = 403, body = JObj [(''error'', JStr ''Invalid or expired token'')]\<rparr>, st)"
proof -
  from bad differ have "Some (signed_with t) \<noteq> ACCESS_TOKEN_SECRET (envr rt) \<or>
      (\<exists>e. get_prop (payload t) ''exp'' = Some (JNum (Finite e)) \<and> e \<le> of_int (clockTimestamp rt))"
    by auto
  then obtain err where "jwt_verify rt token (ACCESS_TOKEN_SECRET (envr rt)) = Inl err"
    using jwt_verify_wrong_secret [OF dec] jwt_verify_expired [OF dec] by blast
  from authenticate_rejects [OF tok this] header
  have rej: "authenticate rt (authorization req) =
      Respond \<lparr>status = 403, body = JObj [(''error'', JStr ''Invalid or expired token'')]\<rparr>"
    by simp
  show ?thesis
    using rej handle_rejected [OF route rej] by (simp add: protected_Respond)
qed

theorem foreign_or_expired_token_rejected_witness:
  "handle sample_rt DeleteMe (blank\<lparr>authorization := Some ''Bearer refresh.token''\<rparr>) sample_store =
     (\<lparr>status = 403, body = JObj [(''error'', JStr ''Invalid or expired token'')]\<rparr>, sample_store) \<and>
   handle sample_rt ListAuthors (blank\<lparr>authorization := Some ''Bearer stale.token''\<rparr>) sample_store =
     (\<lparr>status = 403, body = JObj [(''error'', JStr ''Invalid or expired token'')]\<rparr>, sample_store)"
proof -
  have differ: "ACCESS_TOKEN_SECRET (envr sample_rt) \<noteq> REFRESH_TOKEN_SECRET (envr sample_rt)"
    by (simp add: sample_rt_def sample_env_def)
  have h1: "authorization (blank\<lparr>authorization := Some ''Bearer refresh.token''\<rparr>) =
              Some (''Bearer '' @ ''refresh.token'')"
    and h2: "authorization (blank\<lparr>authorization := Some ''Bearer stale.token''\<rparr>) =
              Some (''Bearer '' @ ''stale.token'')"
    by simp_all
  have t1: "''refresh.token'' \<noteq> []" "CHR '' '' \<notin> set ''refresh.token''"
    and t2: "''stale.token'' \<noteq> []" "CHR '' '' \<notin> set ''stale.token''"
    by simp_all
  have d1: "jwt_decode (lib sample_rt) ''refresh.token'' = Some (sample_token ''refresh-secret'' 605800)"
    and d2: "jwt_decode (lib sample_rt) ''stale.token'' = Some (sample_token ''access-secret'' 1500)"
    by (simp_all add: sample_rt_def sample_libs_def)
  have b1: "Some (signed_with (sample_token ''refresh-secret'' 605800)) =
              REFRESH_TOKEN_SECRET (envr sample_rt) \<or>
            Some (signed_with (sample_token ''refresh-secret'' 605800)) \<noteq>
              ACCESS_TOKEN_SECRET (envr sample_rt) \<or>
            (\<exists>e. get_prop (payload (sample_token ''refresh-secret'' 605800)) ''exp'' =
                   Some (JNum (Finite e)) \<and> e \<le> of_int (clockTimestamp sample_rt))"
    by (simp add: sample_rt_def sample_env_def sample_token_def)
  have b2: "Some (signed_with (sample_token ''access-secret'' 1500)) =
              REFRESH_TOKEN_SECRET (envr sample_rt) \<or>
            Some (signed_with (sample_token ''access-secret'' 1500)) \<noteq>
              ACCESS_TOKEN_SECRET (envr sample_rt) \<or>
            (\<exists>e. get_prop (payload (sample_token ''access-secret'' 1500)) ''exp'' =
                   Some (JNum (Finite e)) \<and> e \<le> of_int (clockTimestamp sample_rt))"
    by (simp add: sample_rt_def sample_env_def sample_token_def clockTimestamp_def JInt_def)
  have p1: "bearer_protected DeleteMe" and p2: "bearer_protected ListAuthors"
    by (simp_all add: bearer_protected_def)
  from foreign_or_expired_token_rejected [OF differ h1 t1 d1 b1 p1, of sample_store]
       foreign_or_expired_token_rejected [OF differ h2 t2 d2 b2 p2, of sample_store]
  show ?thesis by simp
qed

section \<open>Logging in\<close>

lemma jwt_sign_ok:
  assumes "secret = Some k" "k \<noteq> []" "timespan (lib rt) expiresIn = Some d"
  shows "jwt_sign rt pl secret expiresIn = Inr (jwt_encode (lib rt) (mint rt pl k d))"
  using assms by (simp add: jwt_sign_def)

lemma login_past_gate:
  assumes "login_chains rt req = ([], rq)"
  shows "login rt req st = login_handler rt rq st"
  using assms by (simp add: login_def validate_def)

lemma login_success:
  assumes gate: "login_chains rt req = ([], rq)"
    and user: "user_by_email st (to_string (b_email rq)) = Some u"
    and match: "compare_password rt (b_password rq) (u_password u) = Inr True"
    and access: "ACCESS_TOKEN_SECRET (envr rt) = Some ka" "ka \<noteq> []"
      "timespan (lib rt) (or_default (ACCESS_TOKEN_EXPIRY (envr rt)) ''1h'') = Some da"
    and refresh: "REFRESH_TOKEN_SECRET (envr rt) = Some kr" "kr \<noteq> []"
      "timespan (lib rt) (or_default (REFRESH_TOKEN_EXPIRY (envr rt)) ''7d'') = Some dr"
  shows "login rt req st =
    (reply 200
       [(''message'', JStr ''Login successful''),
        (''data'',
         JObj [(''user'', JObj [(''id'', JInt (u_id u)), (''username'', JStr (u_username u)),
                               (''email'', JStr (u_email u))]),
               (''accessToken'',
                JStr (jwt_encode (lib rt)
                  (mint rt [(''id'', JInt (u_id u)), (''email'', JStr (u_email u))] ka da))),
               (''refreshToken'',
                JStr (jwt_encode (lib rt)
                  (mint rt [(''id'', JInt (u_id u)), (''email'', JStr (u_email u))] kr dr)))]),
        (''statusCode'', JInt 200)], st)"
  by (simp add: login_past_gate [OF gate] login_handler_def Let_def user match
      jwt_sign_ok [OF access] jwt_sign_ok [OF refresh])

lemma login_failure:
  assumes gate: "login_chains rt req = ([], rq)"
    and wrong: "user_by_email st (to_string (b_email rq)) = None \<or>
      (\<exists>u. user_by_email st (to_string (b_email rq)) = Some u \<and>
           compare_password rt (b_password rq) (u_password u) = Inr False)"
  shows "login rt req st = (failure 401 ''Invalid email or password'', st)"
  using wrong by (auto simp: login_past_gate [OF gate] login_handler_def Let_def)

lemma login_throws:
  assumes gate: "login_chains rt req = ([], rq)"
    and user: "user_by_email st (to_string (b_email rq)) = Some u"
    and thrown: "compare_password rt (b_password rq) (u_password u) = Inl err"
  shows "login rt req st = (failure_with 500 ''Login failed'' err, st)"
  by (simp add: login_past_gate [OF gate] login_handler_def Let_def user thrown)

text \<open>
  A password that is a number passes \<open>notEmpty()\<close>, and \<open>bcrypt.compare\<close> rejects it: the
  \<open>catch\<close> block answers 500.
\<close>

lemma login_number_password:
  assumes "isEmail (lib rt) (trim_ws (to_string (b_email req)))"
    and "b_password req = Some (JNum (Finite q))"
    and "number_text (lib rt) (Finite q) \<noteq> []"
    and "user_by_email st (normalizeEmail (lib rt) (trim_ws (to_string (b_email req)))) = Some u"
  shows "login rt req st = (failure_with 500 ''Login failed'' ''data and hash must be strings'', st)"
  using assms
  by (simp add: login_def login_chains_def email_chain_def check_each_def field_values_def
      field_text_def flat_text_def check_def validate_def login_handler_def compare_password_def
      to_string_def Let_def)

lemma compare_string [simp]:
  "compare_password rt (Some (JStr p)) h = Inr (bcrypt_compare (lib rt) p h)"
  by (simp add: compare_password_def)

lemma check_each_string [simp]:
  "check_each ok num (Some (JStr p)) msg path = check (ok p) (Some (JStr p)) msg path"
  by (simp add: check_each_def field_values_def field_text_def flat_text_def)

lemma refresh_success:
  assumes present: "to_string (b_refreshToken req) \<noteq> []"
    and verified: "jwt_verify rt (to_string (b_refreshToken req)) (REFRESH_TOKEN_SECRET (envr rt)) = Inr pl"
    and access: "ACCESS_TOKEN_SECRET (envr rt) = Some ka" "ka \<noteq> []"
      "timespan (lib rt) (or_default (ACCESS_TOKEN_EXPIRY (envr rt)) ''1h'') = Some da"
  shows "refresh_token rt req st =
    (reply 200 [(''message'', JStr ''Access token refreshed successfully''),
                (''data'', JObj [(''accessToken'',
                   JStr (jwt_encode (lib rt) (mint rt (id_claim pl) ka da)))]),
                (''statusCode'', JInt 200)], st)"
  by (simp add: refresh_token_def present verified jwt_sign_ok [OF access])

lemma sample_login_gate:
  "login_chains sample_rt
     (blank\<lparr>b_email := Some ''ann@example.com'', b_password := Some (JStr pw)\<rparr>) =
     (check (pw \<noteq> []) (Some (JStr pw)) ''Password is required'' ''password'',
      blank\<lparr>b_email := Some ''ann@example.com'', b_password := Some (JStr pw)\<rparr>)"
  by (simp add: login_chains_def email_chain_def check_def to_string_def trim_ws_def is_ws_def
      sample_rt_def sample_libs_def to_lower_def blank_def)

lemma sample_ann: "user_by_email sample_store ''ann@example.com'' = Some ann"
  by (simp add: user_by_email_def sample_store_def ann_def)

lemma sample_signing:
  "ACCESS_TOKEN_SECRET (envr sample_rt) = Some ''access-secret''"
  "timespan (lib sample_rt) (or_default (ACCESS_TOKEN_EXPIRY (envr sample_rt)) ''1h'') = Some 3600"
  "REFRESH_TOKEN_SECRET (envr sample_rt) = Some ''refresh-secret''"
  "timespan (lib sample_rt) (or_default (REFRESH_TOKEN_EXPIRY (envr sample_rt)) ''7d'') = Some 604800"
  by (simp_all add: sample_rt_def sample_env_def sample_libs_def or_default_def)

lemma sample_refresh:
  "jwt_verify sample_rt ''refresh.token'' (REFRESH_TOKEN_SECRET (envr sample_rt)) =
     Inr [(''id'', JInt 1), (''email'', JStr ''ann@example.com''), (''iat'', JInt 1000),
          (''exp'', JInt 605800)]"
  by (simp add: jwt_verify_def sample_rt_def sample_libs_def sample_env_def sample_token_def
      clockTimestamp_def JInt_def)

section \<open>The claims of a minted access token\<close>

text \<open>
  C10. For one and the same user, a successful login answers with an access token whose
  payload has the claims \<open>id\<close>, \<open>email\<close>, \<open>iat\<close>, \<open>exp\<close>, whereas a successful exchange of
  that user's refresh token answers with an access token whose payload has \<open>id\<close>,
  \<open>iat\<close>, \<open>exp\<close> only: the two mint paths differ by the \<open>email\<close> claim.
\<close>

theorem refreshed_token_lacks_email:
  assumes gate: "login_chains rt req = ([], rq)"
    and user: "user_by_email st (to_string (b_email rq)) = Some u"
    and match: "compare_password rt (b_password rq) (u_password u) = Inr True"
    and access: "ACCESS_TOKEN_SECRET (envr rt) = Some ka" "ka \<noteq> []"
      "timespan (lib rt) (or_default (ACCESS_TOKEN_EXPIRY (envr rt)) ''1h'') = Some da"
    and refresh: "REFRESH_TOKEN_SECRET (envr rt) = Some kr" "kr \<noteq> []"
      "timespan (lib rt) (or_default (REFRESH_TOKEN_EXPIRY (envr rt)) ''7d'') = Some dr"
    and present: "to_string (b_refreshToken req') \<noteq> []"
    and verified: "jwt_verify rt (to_string (b_refreshToken req')) (REFRESH_TOKEN_SECRET (envr rt)) = Inr pl"
    and same: "get_prop pl ''id'' = Some (JInt (u_id u))"
  shows "json_path (body (fst (login rt req st))) ''data'' ''accessToken'' =
           Some (JStr (jwt_encode (lib rt)
             (mint rt [(''id'', JInt (u_id u)), (''email'', JStr (u_email u))] ka da))) \<and>
         map fst (payload (mint rt [(''id'', JInt (u_id u)), (''email'', JStr (u_email u))] ka da)) =
           [''id'', ''email'', ''iat'', ''exp''] \<and>
         json_path (body (fst (refresh_token rt req' st'))) ''data'' ''accessToken'' =
           Some (JStr (jwt_encode (lib rt) (mint rt [(''id'', JInt (u_id u))] ka da))) \<and>
         map fst (payload (mint rt [(''id'', JInt (u_id u))] ka da)) = [''id'', ''iat'', ''exp''] \<and>
         get_prop (payload (mint rt [(''id'', JInt (u_id u))] ka da)) ''email'' = None \<and>
         get_prop (payload (mint rt [(''id'', JInt (u_id u)), (''email'', JStr (u_email u))] ka da))
           ''email'' = Some (JStr (u_email u))"
proof -
  have idc: "id_claim pl = [(''id'', JInt (u_id u))]"
    by (simp add: id_claim_def same)
  show ?thesis
    unfolding login_success [OF gate user match access refresh]
      refresh_success [OF present verified access] idc
    by (simp add: json_path_def json_get_def reply_def responseFormat_def mint_def)
qed


theorem refreshed_token_lacks_email_witness:
  "json_path (body (fst (login sample_rt
       (blank\<lparr>b_email := Some ''ann@example.com'', b_password := Some (JStr ''correct horse'')\<rparr>)
       sample_store))) ''data'' ''accessToken'' = Some (JStr ''access.token'') \<and>
   json_path (body (fst (refresh_token sample_rt (blank\<lparr>b_refreshToken := Some ''refresh.token''\<rparr>)
       sample_store))) ''data'' ''accessToken'' = Some (JStr ''access.token'') \<and>
   payload (mint sample_rt [(''id'', JInt 1), (''email'', JStr ''ann@example.com'')] ''access-secret'' 3600) =
     [(''id'', JInt 1), (''email'', JStr ''ann@example.com''), (''iat'', JInt 2000), (''exp'', JInt 5600)] \<and>
   payload (mint sample_rt [(''id'', JInt 1)] ''access-secret'' 3600) =
     [(''id'', JInt 1), (''iat'', JInt 2000), (''exp'', JInt 5600)]"
proof -
  have gate: "login_chains sample_rt
      (blank\<lparr>b_email := Some ''ann@example.com'', b_password := Some (JStr ''correct horse'')\<rparr>) =
      ([], blank\<lparr>b_email := Some ''ann@example.com'', b_password := Some (JStr ''correct horse'')\<rparr>)"
    by (simp add: sample_login_gate check_def)
  have user: "user_by_email sample_store
      (to_string (b_email (blank\<lparr>b_email := Some ''ann@example.com'',
         b_password := Some (JStr ''correct horse'')\<rparr>))) = Some ann"
    by (simp add: to_string_def sample_ann)
  have match: "compare_password sample_rt
      (b_password (blank\<lparr>b_email := Some ''ann@example.com'',
         b_password := Some (JStr ''correct horse'')\<rparr>)) (u_password ann) = Inr True"
    by (simp add: sample_rt_def sample_libs_def ann_def)
  have ne: "''access-secret'' \<noteq> []" "''refresh-secret'' \<noteq> []"
    by simp_all
  have present: "to_string (b_refreshToken (blank\<lparr>b_refreshToken := Some ''refresh.token''\<rparr>)) \<noteq> []"
    by (simp add: to_string_def)
  have verified: "jwt_verify sample_rt
      (to_string (b_refreshToken (blank\<lparr>b_refreshToken := Some ''refresh.token''\<rparr>)))
      (REFRESH_TOKEN_SECRET (envr sample_rt)) =
      Inr [(''id'', JInt 1), (''email'', JStr ''ann@example.com''), (''iat'', JInt 1000),
           (''exp'', JInt 605800)]"
    by (simp add: to_string_def sample_refresh)
  have same: "get_prop [(''id'', JInt 1), (''email'', JStr ''ann@example.com''), (''iat'', JInt 1000),
           (''exp'', JInt 605800)] ''id'' = Some (JInt (u_id ann))"
    by (simp add: ann_def)
  from refreshed_token_lacks_email [OF gate user match sample_signing(1) ne(1) sample_signing(2)
      sample_signing(3) ne(2) sample_signing(4) present verified same, where st' = sample_store]
  show ?thesis
    by (simp add: ann_def mint_def sample_rt_def sample_libs_def clockTimestamp_def)
qed

section \<open>The outcomes of a login\<close>

lemma login_gate_iff:
  assumes "b_password req = Some (JStr pw)"
  shows "fst (login_chains rt req) = [] \<longleftrightarrow>
     isEmail (lib rt) (trim_ws (to_string (b_email req))) \<and> pw \<noteq> []"
  using assms by (auto simp: login_chains_def email_chain_def check_def Let_def)

lemma login_gate_fields:
  assumes "login_chains rt req = (errors, rq)"
  shows "to_string (b_email rq) = normalizeEmail (lib rt) (trim_ws (to_string (b_email req)))"
    and "b_password rq = b_password req"
  using assms by (auto simp: login_chains_def email_chain_def Let_def to_string_def)

text \<open>
  C5. As stated the claim fails: the validation gate in front of the login handler turns
  away an empty password (and an e-mail that is not one) with its own 400 answer, so not
  every other password yields a 401. Amended: for every login request whose \<open>email\<close> and
  \<open>password\<close> are strings and that passes the gate (the e-mail, trimmed, is an e-mail and
  the password is not empty), the handler looks up the normalised e-mail; if a user has
  it and the password matches the stored hash then, the token secrets and lifetimes
  being configured, the answer is 200 with an access token and a refresh token in
  \<open>data\<close>; if no user has it or the password does not match, the answer is the 401
  envelope \<open>Invalid email or password\<close>. The store is never changed. (A password that is
  not a string can pass the gate too; then \<open>bcrypt.compare\<close> throws and the answer is a
  500, see \<open>login_throws\<close>.)
\<close>

theorem login_outcomes:
  assumes gate: "login_chains rt req = ([], rq)"
    and string: "b_password req = Some (JStr pw)"
  shows "isEmail (lib rt) (trim_ws (to_string (b_email req))) \<and>
         pw \<noteq> [] \<and>
         to_string (b_email rq) = normalizeEmail (lib rt) (trim_ws (to_string (b_email req))) \<and>
         b_password rq = Some (JStr pw) \<and>
         (user_by_email st (to_string (b_email rq)) = Some u \<and>
            bcrypt_compare (lib rt) pw (u_password u) \<and>
            ACCESS_TOKEN_SECRET (envr rt) = Some ka \<and> ka \<noteq> [] \<and>
            timespan (lib rt) (or_default (ACCESS_TOKEN_EXPIRY (envr rt)) ''1h'') = Some da \<and>
            REFRESH_TOKEN_SECRET (envr rt) = Some kr \<and> kr \<noteq> [] \<and>
            timespan (lib rt) (or_default (REFRESH_TOKEN_EXPIRY (envr rt)) ''7d'') = Some dr \<longrightarrow>
              status (fst (login rt req st)) = 200 \<and>
              is_envelope (body (fst (login rt req st))) \<and>
              json_get (body (fst (login rt req st))) ''statusCode'' = Some (JInt 200) \<and>
              json_path (body (fst (login rt req st))) ''data'' ''accessToken'' =
                Some (JStr (jwt_encode (lib rt)
                  (mint rt [(''id'', JInt (u_id u)), (''email'', JStr (u_email u))] ka da))) \<and>
              json_path (body (fst (login rt req st))) ''data'' ''refreshToken'' =
                Some (JStr (jwt_encode (lib rt)
                  (mint rt [(''id'', JInt (u_id u)), (''email'', JStr (u_email u))] kr dr))) \<and>
              snd (login rt req st) = st) \<and>
         (user_by_email st (to_string (b_email rq)) = None \<or>
          (\<exists>u. user_by_email st (to_string (b_email rq)) = Some u \<and>
               \<not> bcrypt_compare (lib rt) pw (u_password u)) \<longrightarrow>
            login rt req st = (failure 401 ''Invalid email or password'', st) \<and>
            status (fst (login rt req st)) = 401 \<and>
            is_envelope (body (fst (login rt req st))) \<and>
            json_get (body (fst (login rt req st))) ''statusCode'' = Some (JInt 401))"
proof (intro conjI impI)
  from gate have "fst (login_chains rt req) = []" by simp
  then show "isEmail (lib rt) (trim_ws (to_string (b_email req)))" and "pw \<noteq> []"
    by (simp_all add: login_gate_iff [OF string])
  show "to_string (b_email rq) = normalizeEmail (lib rt) (trim_ws (to_string (b_email req)))"
    using login_gate_fields [OF gate] by simp
  show rq: "b_password rq = Some (JStr pw)"
    using login_gate_fields [OF gate] string by simp
next
  have rq: "b_password rq = Some (JStr pw)"
    using login_gate_fields [OF gate] string by simp
  assume ok: "user_by_email st (to_string (b_email rq)) = Some u \<and>
            bcrypt_compare (lib rt) pw (u_password u) \<and>
            ACCESS_TOKEN_SECRET (envr rt) = Some ka \<and> ka \<noteq> [] \<and>
            timespan (lib rt) (or_default (ACCESS_TOKEN_EXPIRY (envr rt)) ''1h'') = Some da \<and>
            REFRESH_TOKEN_SECRET (envr rt) = Some kr \<and> kr \<noteq> [] \<and>
            timespan (lib rt) (or_default (REFRESH_TOKEN_EXPIRY (envr rt)) ''7d'') = Some dr"
  then have match: "compare_password rt (b_password rq) (u_password u) = Inr True"
    by (simp add: rq)
  from ok have eq: "login rt req st =
    (reply 200
       [(''message'', JStr ''Login successful''),
        (''data'',
         JObj [(''user'', JObj [(''id'', JInt (u_id u)), (''username'', JStr (u_username u)),
                               (''email'', JStr (u_email u))]),
               (''accessToken'',
                JStr (jwt_encode (lib rt)
                  (mint rt [(''id'', JInt (u_id u)), (''email'', JStr (u_email u))] ka da))),
               (''refreshToken'',
                JStr (jwt_encode (lib rt)
                  (mint rt [(''id'', JInt (u_id u)), (''email'', JStr (u_email u))] kr dr)))]),
        (''statusCode'', JInt 200)], st)"
    using login_success [OF gate _ match, of st ka da kr dr] by blast
  show "status (fst (login rt req st)) = 200"
    and "is_envelope (body (fst (login rt req st)))"
    and "json_get (body (fst (login rt req st))) ''statusCode'' = Some (JInt 200)"
    and "json_path (body (fst (login rt req st))) ''data'' ''accessToken'' =
                Some (JStr (jwt_encode (lib rt)
                  (mint rt [(''id'', JInt (u_id u)), (''email'', JStr (u_email u))] ka da)))"
    and "json_path (body (fst (login rt req st))) ''data'' ''refreshToken'' =
                Some (JStr (jwt_encode (lib rt)
                  (mint rt [(''id'', JInt (u_id u)), (''email'', JStr (u_email u))] kr dr)))"
    and "snd (login rt req st) = st"
    unfolding eq
    by (simp_all add: reply_def responseFormat_def is_envelope_def json_get_def json_path_def)
next
  have rq: "b_password rq = Some (JStr pw)"
    using login_gate_fields [OF gate] string by simp
  assume "user_by_email st (to_string (b_email rq)) = None \<or>
          (\<exists>u. user_by_email st (to_string (b_email rq)) = Some u \<and>
               \<not> bcrypt_compare (lib rt) pw (u_password u))"
  then have wrong: "user_by_email st (to_string (b_email rq)) = None \<or>
      (\<exists>u. user_by_email st (to_string (b_email rq)) = Some u \<and>
           compare_password rt (b_password rq) (u_password u) = Inr False)"
    by (simp add: rq)
  have eq: "login rt req st = (failure 401 ''Invalid email or password'', st)"
    by (rule login_failure [OF gate wrong])
  show "login rt req st = (failure 401 ''Invalid email or password'', st)"
    by (rule eq)
  show "status (fst (login rt req st)) = 401"
    and "is_envelope (body (fst (login rt req st)))"
    and "json_get (body (fst (login rt req st))) ''statusCode'' = Some (JInt 401)"
    unfolding eq by (simp_all add: failure_is_envelope) (simp_all add: failure_eq json_get_def)
qed

theorem login_outcomes_witness:
  "status (fst (login sample_rt
     (blank\<lparr>b_email := Some ''ann@example.com'', b_password := Some (JStr ''correct horse'')\<rparr>)
     sample_store)) = 200 \<and>
   json_path (body (fst (login sample_rt
     (blank\<lparr>b_email := Some ''ann@example.com'', b_password := Some (JStr ''correct horse'')\<rparr>)
     sample_store))) ''data'' ''refreshToken'' = Some (JStr ''refresh.token'') \<and>
   status (fst (login sample_rt
     (blank\<lparr>b_email := Some ''ann@example.com'', b_password := Some (JStr ''battery staple'')\<rparr>)
     sample_store)) = 401"
proof -
  have g1: "login_chains sample_rt
      (blank\<lparr>b_email := Some ''ann@example.com'', b_password := Some (JStr ''correct horse'')\<rparr>) =
      ([], blank\<lparr>b_email := Some ''ann@example.com'', b_password := Some (JStr ''correct horse'')\<rparr>)"
    and g2: "login_chains sample_rt
      (blank\<lparr>b_email := Some ''ann@example.com'', b_password := Some (JStr ''battery staple'')\<rparr>) =
      ([], blank\<lparr>b_email := Some ''ann@example.com'', b_password := Some (JStr ''battery staple'')\<rparr>)"
    by (simp_all add: sample_login_gate check_def)
  have s1: "b_password (blank\<lparr>b_email := Some ''ann@example.com'',
        b_password := Some (JStr ''correct horse'')\<rparr>) = Some (JStr ''correct horse'')"
    and s2: "b_password (blank\<lparr>b_email := Some ''ann@example.com'',
        b_password := Some (JStr ''battery staple'')\<rparr>) = Some (JStr ''battery staple'')"
    by simp_all
  have m1: "bcrypt_compare (lib sample_rt) ''correct horse'' (u_password ann)"
    and m2: "\<not> bcrypt_compare (lib sample_rt) ''battery staple'' (u_password ann)"
    by (simp_all add: sample_rt_def sample_libs_def ann_def)
  have ne: "''access-secret'' \<noteq> []" "''refresh-secret'' \<noteq> []"
    by simp_all
  have A: "status (fst (login sample_rt
       (blank\<lparr>b_email := Some ''ann@example.com'', b_password := Some (JStr ''correct horse'')\<rparr>)
       sample_store)) = 200 \<and>
     json_path (body (fst (login sample_rt
       (blank\<lparr>b_email := Some ''ann@example.com'', b_password := Some (JStr ''correct horse'')\<rparr>)
       sample_store))) ''data'' ''refreshToken'' =
       Some (JStr (jwt_encode (lib sample_rt)
         (mint sample_rt [(''id'', JInt (u_id ann)), (''email'', JStr (u_email ann))]
            ''refresh-secret'' 604800)))"
    using login_outcomes [OF g1 s1, where st = sample_store and u = ann and ka = "''access-secret''"
        and kr = "''refresh-secret''" and da = 3600 and dr = 604800]
      m1 sample_ann sample_signing ne
    by (simp add: to_string_def)
  have B: "status (fst (login sample_rt
       (blank\<lparr>b_email := Some ''ann@example.com'', b_password := Some (JStr ''battery staple'')\<rparr>)
       sample_store)) = 401"
    using login_outcomes [OF g2 s2, where st = sample_store and u = ann and ka = "''access-secret''"
        and kr = "''refresh-secret''" and da = 3600 and dr = 604800]
      m2 sample_ann
    by (simp add: to_string_def failure_eq)
  from A B show ?thesis
    by (simp add: mint_def sample_rt_def sample_libs_def)
qed

theorem login_empty_password_counterexample:
  "user_by_email sample_store ''ann@example.com'' = Some ann \<and>
   \<not> bcrypt_compare (lib sample_rt) [] (u_password ann) \<and>
   login sample_rt (blank\<lparr>b_email := Some ''ann@example.com'', b_password := Some (JStr [])\<rparr>)
       sample_store =
     (\<lparr>status = 400,
       body = JObj [(''status'', JStr ''error''), (''message'', JStr ''Validation failed''),
                    (''errors'', JArr [JObj [(''type'', JStr ''field''), (''value'', JStr []),
                       (''msg'', JStr ''Password is required''), (''path'', JStr ''password''),
                       (''location'', JStr ''body'')]])]\<rparr>,
      sample_store)"
  by (simp add: sample_ann login_def sample_login_gate check_def validate_def verror_json_def)
     (simp add: sample_rt_def sample_libs_def ann_def)

section \<open>Paging the list of authors\<close>



































section \<open>Passwords in responses\<close>

lemma json_keys_JInt [simp]: "json_keys (JInt i) = []"
  by (simp add: JInt_def)

lemma obj_keys_iff:
  "x \<in> set (json_keys (JObj ps)) \<longleftrightarrow>
     (\<exists>kv\<in>set ps. fst kv = x \<or> x \<in> set (json_keys (snd kv)))"
  by (induction ps) auto

lemma set_set_prop: "set (set_prop ps kv) \<subseteq> insert kv (set ps)"
proof (induction ps)
  case Nil
  then show ?case by (cases kv) simp
next
  case (Cons p ps)
  then show ?case by (cases kv; cases p) auto
qed

lemma set_spread: "set (foldl set_prop ps props) \<subseteq> set ps \<union> set props"
proof (induction props arbitrary: ps)
  case Nil
  then show ?case by simp
next
  case (Cons kv props)
  from Cons.IH [of "set_prop ps kv"] set_set_prop [of ps kv] show ?case
    by auto
qed

lemma reply_keys:
  assumes "x \<in> set (json_keys (body (reply code props)))"
  shows "x \<in> set (json_keys (JObj responseFormat)) \<or> x \<in> set (json_keys (JObj props))"
proof -
  from assms obtain kv where kv: "kv \<in> set (foldl set_prop responseFormat props)"
    and x: "fst kv = x \<or> x \<in> set (json_keys (snd kv))"
    unfolding reply_def by (auto simp: obj_keys_iff simp del: json_keys.simps)
  from kv set_spread have "kv \<in> set responseFormat \<or> kv \<in> set props"
    by blast
  with x show ?thesis
    unfolding obj_keys_iff by blast
qed

lemma format_keys: "''password'' \<notin> set (json_keys (JObj responseFormat))"
  by (simp add: responseFormat_def)

lemma reply_no_password:
  "''password'' \<notin> set (json_keys (JObj props)) \<Longrightarrow> no_password_key (reply code props)"
  unfolding no_password_key_def using reply_keys format_keys by blast

lemma failure_no_password [simp]:
  "no_password_key (failure code msg)" "no_password_key (failure_with code msg err)"
  by (simp_all add: failure_eq failure_with_eq no_password_key_def)

lemma user_json_keys [simp]: "''password'' \<notin> set (json_keys (user_json u))"
  by (simp add: user_json_def)

lemma author_json_keys [simp]: "''password'' \<notin> set (json_keys (author_json a))"
  by (simp add: author_json_def split: option.splits)

lemma first_user_keys [simp]: "''password'' \<notin> set (json_keys (first_row (map user_json rows)))"
  by (cases rows) (simp_all add: first_row_def)

lemma first_author_keys [simp]: "''password'' \<notin> set (json_keys (first_row (map author_json rows)))"
  by (cases rows) (simp_all add: first_row_def)

lemma register_handler_no_password: "no_password_key (fst (register_handler rt req st))"
  unfolding register_handler_def Let_def
  by (auto split: option.splits prod.splits sum.splits intro!: reply_no_password)

lemma login_handler_no_password: "no_password_key (fst (login_handler rt req st))"
  unfolding login_handler_def Let_def
  by (auto split: option.splits sum.splits intro!: reply_no_password)

lemma refresh_no_password: "no_password_key (fst (refresh_token rt req st))"
  unfolding refresh_token_def
  by (auto split: sum.splits intro!: reply_no_password)

lemma get_me_no_password: "no_password_key (fst (get_me_handler user st))"
  unfolding get_me_handler_def
  by (auto split: option.splits sum.splits intro!: reply_no_password)

lemma delete_me_no_password: "no_password_key (fst (delete_me_handler user st))"
  unfolding delete_me_handler_def
  by (auto split: option.splits sum.splits intro!: reply_no_password)

lemma put_me_no_password: "no_password_key (fst (put_me_handler rt user req st))"
  unfolding put_me_handler_def Let_def
  by (auto split: option.splits sum.splits prod.splits intro!: reply_no_password)

lemma map_author_keys [simp]: "''password'' \<notin> set (json_keys (JArr (map author_json rows)))"
  by (induction rows) simp_all

lemma list_no_password: "no_password_key (fst (list_authors_handler rt req st))"
  unfolding list_authors_handler_def Let_def
  by (auto split: sum.splits intro!: reply_no_password simp del: json_keys.simps(2))

lemma get_author_no_password: "no_password_key (fst (get_author_handler req st))"
  unfolding get_author_handler_def
  by (auto split: option.splits sum.splits intro!: reply_no_password)

lemma create_author_no_password: "no_password_key (fst (create_author_handler rt req st))"
  unfolding create_author_handler_def
  by (auto split: prod.splits sum.splits intro!: reply_no_password)

lemma update_author_no_password: "no_password_key (fst (update_author_handler rt req st))"
  unfolding update_author_handler_def
  by (auto split: option.splits prod.splits sum.splits intro!: reply_no_password)

lemma delete_author_no_password: "no_password_key (fst (delete_author_handler req st))"
  unfolding delete_author_handler_def
  by (auto split: prod.splits sum.splits intro!: reply_no_password)

lemma batch_delete_no_password: "no_password_key (fst (batch_delete_handler req st))"
  unfolding batch_delete_handler_def
  by (auto split: option.splits prod.splits sum.splits intro!: reply_no_password)

lemma register_rejects_short:
  assumes "b_password req = Some (JStr pw)" and "length pw < 6"
  shows "\<exists>es. fst (register_chains rt req) =
           es @ [\<lparr>ve_value = Some (JStr pw),
                   ve_msg = ''Password must be at least 6 characters long'',
                   ve_path = ''password''\<rparr>]"
  using assms by (simp add: register_chains_def email_chain_def check_def Let_def split: prod.splits)

text \<open>
  C8. No response is to contain the password of a user, in plaintext or as the stored
  hash. Every handler observes this: none of its answers has a property named
  \<open>password\<close> (the lemmas above), the rows it returns are built without that column.
  The validation gate does not: whenever a registration is turned away because its
  password, a string, has fewer than six characters, the 400 answer of \<open>validate\<close> carries
  \<open>errors.array()\<close>, whose entry for the field holds the rejected value, so the plaintext
  that was sent comes back in the body.
\<close>

theorem rejected_password_is_echoed:
  assumes string: "b_password req = Some (JStr pw)"
    and short: "length pw < 6"
  shows "status (fst (handle rt Register req st)) = 400 \<and>
         (\<exists>es. json_get (body (fst (handle rt Register req st))) ''errors'' =
                 Some (JArr (es @
                   [JObj [(''type'', JStr ''field''), (''value'', JStr pw),
                          (''msg'', JStr ''Password must be at least 6 characters long''),
                          (''path'', JStr ''password''), (''location'', JStr ''body'')]]))) \<and>
         pw \<in> set (json_strings (body (fst (handle rt Register req st)))) \<and>
         snd (handle rt Register req st) = st"
proof -
  obtain es where es: "fst (register_chains rt req) =
      es @ [\<lparr>ve_value = Some (JStr pw), ve_msg = ''Password must be at least 6 characters long'',
              ve_path = ''password''\<rparr>]"
    using register_rejects_short [OF string short] by blast
  have "handle rt Register req st =
      (\<lparr>status = 400,
        body = JObj [(''status'', JStr ''error''), (''message'', JStr ''Validation failed''),
                     (''errors'', JArr (map verror_json es @
                        [JObj [(''type'', JStr ''field''), (''value'', JStr pw),
                               (''msg'', JStr ''Password must be at least 6 characters long''),
                               (''path'', JStr ''password''), (''location'', JStr ''body'')]]))]\<rparr>,
       st)"
    using es by (simp add: register_def validate_def verror_json_def case_prod_beta)
  then show ?thesis
    by (simp add: json_get_def)
qed

theorem rejected_password_is_echoed_witness:
  "handle sample_rt Register
     (blank\<lparr>b_username := Some ''bob'', b_email := Some ''bob@example.com'',
             b_password := Some (JStr ''abc'')\<rparr>) sample_store =
     (\<lparr>status = 400,
       body = JObj [(''status'', JStr ''error''), (''message'', JStr ''Validation failed''),
                    (''errors'', JArr [JObj [(''type'', JStr ''field''), (''value'', JStr ''abc''),
                       (''msg'', JStr ''Password must be at least 6 characters long''),
                       (''path'', JStr ''password''), (''location'', JStr ''body'')]])]\<rparr>,
      sample_store) \<and>
   ''abc'' \<in> set (json_strings (body (fst (handle sample_rt Register
     (blank\<lparr>b_username := Some ''bob'', b_email := Some ''bob@example.com'',
             b_password := Some (JStr ''abc'')\<rparr>) sample_store))))"
proof -
  let ?req = "blank\<lparr>b_username := Some ''bob'', b_email := Some ''bob@example.com'',
                     b_password := Some (JStr ''abc'')\<rparr>"
  have string: "b_password ?req = Some (JStr ''abc'')" and short: "length ''abc'' < 6"
    by simp_all
  have other: "register_chains sample_rt ?req =
      ([\<lparr>ve_value = Some (JStr ''abc''), ve_msg = ''Password must be at least 6 characters long'',
          ve_path = ''password''\<rparr>], ?req)"
    by (simp add: register_chains_def email_chain_def check_def Let_def to_string_def trim_ws_def
        is_ws_def sample_rt_def sample_libs_def to_lower_def blank_def)
  have eq: "handle sample_rt Register ?req sample_store =
     (\<lparr>status = 400,
       body = JObj [(''status'', JStr ''error''), (''message'', JStr ''Validation failed''),
                    (''errors'', JArr [JObj [(''type'', JStr ''field''), (''value'', JStr ''abc''),
                       (''msg'', JStr ''Password must be at least 6 characters long''),
                       (''path'', JStr ''password''), (''location'', JStr ''body'')]])]\<rparr>,
      sample_store)"
    by (simp add: register_def other validate_def verror_json_def)
  from rejected_password_is_echoed [OF string short, of sample_rt sample_store] eq
  show ?thesis by simp
qed

end
